theory Spec2Isabelle
  imports Complex_Main
begin

section \<open>Plan limits (SQL function \<open>get_plan_limits\<close>)\<close>

text \<open>
  The migrations declare \<open>get_plan_limits\<close> twice: once over the enum \<open>app_role\<close>
  (\<open>'trial'\<close>, \<open>'basic'\<close>, \<open>'gold'\<close>) and once over \<open>text\<close>. Both bodies are the same
  \<open>CASE\<close> expression returning a \<open>jsonb\<close> object with integer members. A \<open>jsonb\<close> object
  is a finite map from keys to values (member order is not observable), the SQL \<open>NULL\<close>
  argument is \<open>None\<close>; a comparison with \<open>NULL\<close> is not true, so \<open>NULL\<close> reaches \<open>ELSE\<close>.
\<close>

type_synonym jsonb_obj = "string \<rightharpoonup> int"

datatype app_role = trial | basic | gold

definition trial_limits :: jsonb_obj where
  "trial_limits = [''projects'' \<mapsto> 1, ''keywords'' \<mapsto> 10, ''reports'' \<mapsto> 5, ''competitors'' \<mapsto> 0]"

definition basic_limits :: jsonb_obj where
  "basic_limits = [''projects'' \<mapsto> 3, ''keywords'' \<mapsto> 25, ''reports'' \<mapsto> 15, ''competitors'' \<mapsto> 1]"

definition gold_limits :: jsonb_obj where
  "gold_limits = [''projects'' \<mapsto> 10, ''keywords'' \<mapsto> 50, ''reports'' \<mapsto> 50, ''competitors'' \<mapsto> - 1]"

definition get_plan_limits :: "string option \<Rightarrow> jsonb_obj" where
  "get_plan_limits plan_type =
     (if plan_type = Some ''trial'' then trial_limits
      else if plan_type = Some ''basic'' then basic_limits
      else if plan_type = Some ''gold'' then gold_limits
      else Map.empty)"

definition get_plan_limits_role :: "app_role option \<Rightarrow> jsonb_obj" where
  "get_plan_limits_role plan_type =
     (if plan_type = Some trial then trial_limits
      else if plan_type = Some basic then basic_limits
      else if plan_type = Some gold then gold_limits
      else Map.empty)"

fun role_label :: "app_role \<Rightarrow> string" where
  "role_label trial = ''trial''"
| "role_label basic = ''basic''"
| "role_label gold = ''gold''"

section \<open>JavaScript strings and numbers\<close>

text \<open>
  A JavaScript string is a sequence of UTF-16 code units; a code unit is modelled by its
  numeric value. \<open>js\<close> embeds a literal. White space is the set that both
  \<open>String.prototype.trim\<close> and the regular expression class \<open>\s\<close> use (WhiteSpace and
  LineTerminator of ECMAScript).
\<close>

type_synonym code_unit = nat
type_synonym jsstring = "code_unit list"

definition js :: "string \<Rightarrow> jsstring" where
  "js s = map of_char s"

definition isWhiteSpace :: "code_unit \<Rightarrow> bool" where
  "isWhiteSpace c =
     (c = 9 \<or> c = 10 \<or> c = 11 \<or> c = 12 \<or> c = 13 \<or> c = 32 \<or> c = 160 \<or> c = 5760
      \<or> (8192 \<le> c \<and> c \<le> 8202) \<or> c = 8232 \<or> c = 8233 \<or> c = 8239 \<or> c = 8287
      \<or> c = 12288 \<or> c = 65279)"

definition trim :: "jsstring \<Rightarrow> jsstring" where
  "trim s = rev (dropWhile isWhiteSpace (rev (dropWhile isWhiteSpace s)))"

text \<open>
  A JavaScript number is a double. \<open>Num q\<close> is the finite number of value \<open>q\<close>. Division
  and multiplication of finite numbers are modelled exactly, without rounding, and the
  sign of zero is not modelled; the special values are. Division, multiplication and
  \<open>Math.min\<close> follow IEEE 754 on the special values: \<open>0 / 0\<close> is \<open>NaN\<close>, a non-zero number
  over zero is an infinity, and \<open>NaN\<close> is contagious.
\<close>

datatype jsnum = Num rat | PosInfinity | NegInfinity | NaN

text \<open>
  The number value of a natural number \<open>n\<close>, as \<open>parseInt\<close> returns it: the double nearest
  to \<open>n\<close>, a tie going to the even significand, and \<open>Infinity\<close> when the rounded value
  reaches \<open>2 ^ 1024\<close>. A double has 53 significant bits: \<open>excess_bits n\<close> is the number
  \<open>e\<close> of bits of \<open>n\<close> beyond 53, \<open>n div 2 ^ e\<close> are the leading bits and \<open>n mod 2 ^ e\<close>
  the bits cut off. (For more than 20 digits ECMAScript lets an implementation replace
  the digits after the 20th by zeros before rounding; that freedom is not modelled.)
\<close>

function excess_bits :: "nat \<Rightarrow> nat" where
  "excess_bits n = (if n < 2 ^ 53 then 0 else Suc (excess_bits (n div 2)))"
  by pat_completeness auto
termination
  by (relation "measure id") auto

declare excess_bits.simps [simp del]

definition double_of_nat :: "nat \<Rightarrow> jsnum" where
  "double_of_nat n =
     (let e = excess_bits n;
          q = n div 2 ^ e;
          r = n mod 2 ^ e;
          m = (if 2 ^ e < 2 * r \<or> (2 * r = 2 ^ e \<and> odd q) then q + 1 else q)
      in if 2 ^ 1024 \<le> m * 2 ^ e then PosInfinity else Num (of_nat (m * 2 ^ e)))"

fun js_div :: "jsnum \<Rightarrow> jsnum \<Rightarrow> jsnum" where
  "js_div (Num a) (Num b) =
     (if b = 0 then (if a = 0 then NaN else if 0 < a then PosInfinity else NegInfinity)
      else Num (a / b))"
| "js_div NaN _ = NaN"
| "js_div _ NaN = NaN"
| "js_div (Num a) _ = Num 0"
| "js_div PosInfinity (Num b) = (if 0 \<le> b then PosInfinity else NegInfinity)"
| "js_div NegInfinity (Num b) = (if 0 \<le> b then NegInfinity else PosInfinity)"
| "js_div _ _ = NaN"

fun js_mul :: "jsnum \<Rightarrow> jsnum \<Rightarrow> jsnum" where
  "js_mul (Num a) (Num b) = Num (a * b)"
| "js_mul NaN _ = NaN"
| "js_mul _ NaN = NaN"
| "js_mul PosInfinity (Num b) = (if b = 0 then NaN else if 0 < b then PosInfinity else NegInfinity)"
| "js_mul NegInfinity (Num b) = (if b = 0 then NaN else if 0 < b then NegInfinity else PosInfinity)"
| "js_mul (Num a) PosInfinity = (if a = 0 then NaN else if 0 < a then PosInfinity else NegInfinity)"
| "js_mul (Num a) NegInfinity = (if a = 0 then NaN else if 0 < a then NegInfinity else PosInfinity)"
| "js_mul PosInfinity PosInfinity = PosInfinity"
| "js_mul NegInfinity NegInfinity = PosInfinity"
| "js_mul _ _ = NegInfinity"

fun Math_min :: "jsnum \<Rightarrow> jsnum \<Rightarrow> jsnum" where
  "Math_min NaN _ = NaN"
| "Math_min _ NaN = NaN"
| "Math_min NegInfinity _ = NegInfinity"
| "Math_min _ NegInfinity = NegInfinity"
| "Math_min PosInfinity y = y"
| "Math_min x PosInfinity = x"
| "Math_min (Num a) (Num b) = Num (min a b)"

section \<open>Input sanitisation (\<open>lib/validation.ts\<close>)\<close>

definition sanitizeInput :: "jsstring \<Rightarrow> jsstring" where
  "sanitizeInput input =
     filter (\<lambda>c. c \<noteq> of_char CHR ''<'' \<and> c \<noteq> of_char CHR ''>'') (trim input)"

definition sanitizeArray :: "jsstring list \<Rightarrow> jsstring list" where
  "sanitizeArray array = filter (\<lambda>item. length item > 0) (map sanitizeInput array)"

section \<open>Rate limiter (\<open>createRateLimiter\<close> in \<open>lib/validation.ts\<close>)\<close>











section \<open>Row-level security (first migration)\<close>

text \<open>
  The four tenant tables with the columns the policies read. A table is the list of its
  rows; \<open>PRIMARY KEY\<close> makes the \<open>id\<close> column of a table duplicate-free. Identifiers
  (\<open>UUID\<close>) are natural numbers. \<open>auth.uid()\<close> is \<open>None\<close> (SQL \<open>NULL\<close>) for a request
  without an authenticated user, and a comparison with \<open>NULL\<close> is not true.
\<close>

type_synonym uuid = nat

datatype sql_error =
  Rls_violation
| Check_violation
| Unique_violation
| Foreign_key_violation
| Not_null_violation
| Undefined_column string
| Undefined_table string
| Undefined_object string
| Duplicate_table string
| Duplicate_object string
| Invalid_text_representation

record project_row =
  project_id :: uuid
  project_user_id :: uuid
  project_name :: string
  brand_name :: string
  project_competitors :: "string list"

record keyword_row =
  keyword_id :: uuid
  keyword_project_id :: uuid
  keyword_text :: string
  priority :: int

record report_row =
  report_id :: uuid
  report_project_id :: uuid
  report_user_id :: uuid
  report_type :: string
  status :: string

record api_response_row =
  api_response_id :: uuid
  api_response_report_id :: uuid
  provider :: string
  api_response_keyword :: string
  raw_response :: string

record database =
  db_projects :: "project_row list"
  db_keywords :: "keyword_row list"
  db_reports :: "report_row list"
  db_api_responses :: "api_response_row list"

definition primary_keys :: "database \<Rightarrow> bool" where
  "primary_keys db =
     (distinct (map project_id (db_projects db)) \<and> distinct (map keyword_id (db_keywords db)) \<and>
      distinct (map report_id (db_reports db)) \<and> distinct (map api_response_id (db_api_responses db)))"

datatype table = Projects | Keywords | Reports | Api_responses

datatype command = SELECT | INSERT | UPDATE | DELETE

datatype row =
  Project_row project_row
| Keyword_row keyword_row
| Report_row report_row
| Api_response_row api_response_row

fun table_of :: "row \<Rightarrow> table" where
  "table_of (Project_row _) = Projects"
| "table_of (Keyword_row _) = Keywords"
| "table_of (Report_row _) = Reports"
| "table_of (Api_response_row _) = Api_responses"

text \<open>
  The policy expressions. A sub-select inside a policy runs with the rights of the
  querying user, so it sees only the rows that user may select.
\<close>

definition projects_policy :: "uuid option \<Rightarrow> project_row \<Rightarrow> bool" where
  "projects_policy auth_uid p = (auth_uid = Some (project_user_id p))"

definition reports_policy :: "uuid option \<Rightarrow> report_row \<Rightarrow> bool" where
  "reports_policy auth_uid r = (auth_uid = Some (report_user_id r))"

definition keywords_policy :: "database \<Rightarrow> uuid option \<Rightarrow> keyword_row \<Rightarrow> bool" where
  "keywords_policy db auth_uid k =
     list_ex (\<lambda>p. project_id p = keyword_project_id k \<and> Some (project_user_id p) = auth_uid)
       (filter (projects_policy auth_uid) (db_projects db))"

definition api_responses_policy :: "database \<Rightarrow> uuid option \<Rightarrow> api_response_row \<Rightarrow> bool" where
  "api_responses_policy db auth_uid a =
     list_ex (\<lambda>r. report_id r = api_response_report_id a \<and> Some (report_user_id r) = auth_uid)
       (filter (reports_policy auth_uid) (db_reports db))"

text \<open>
  The policies the migration creates for the four tables, each with its table, its
  command and its expression (\<open>USING\<close> for \<open>SELECT\<close>, \<open>UPDATE\<close> and \<open>DELETE\<close>,
  \<open>WITH CHECK\<close> for \<open>INSERT\<close>). The expression of a policy on another table's row is
  false: a policy is only consulted for rows of its own table.
\<close>

record policy =
  pol_name :: string
  pol_table :: table
  pol_command :: command
  pol_expr :: "database \<Rightarrow> uuid option \<Rightarrow> row \<Rightarrow> bool"

definition on_projects :: "database \<Rightarrow> uuid option \<Rightarrow> row \<Rightarrow> bool" where
  "on_projects db auth_uid r = (case r of Project_row p \<Rightarrow> projects_policy auth_uid p | _ \<Rightarrow> False)"

definition on_keywords :: "database \<Rightarrow> uuid option \<Rightarrow> row \<Rightarrow> bool" where
  "on_keywords db auth_uid r = (case r of Keyword_row k \<Rightarrow> keywords_policy db auth_uid k | _ \<Rightarrow> False)"

definition on_reports :: "database \<Rightarrow> uuid option \<Rightarrow> row \<Rightarrow> bool" where
  "on_reports db auth_uid r = (case r of Report_row x \<Rightarrow> reports_policy auth_uid x | _ \<Rightarrow> False)"

definition on_api_responses :: "database \<Rightarrow> uuid option \<Rightarrow> row \<Rightarrow> bool" where
  "on_api_responses db auth_uid r =
     (case r of Api_response_row a \<Rightarrow> api_responses_policy db auth_uid a | _ \<Rightarrow> False)"

definition policies :: "policy list" where
  "policies =
   [\<lparr>pol_name = ''Users can view their own projects'', pol_table = Projects, pol_command = SELECT, pol_expr = on_projects\<rparr>,
    \<lparr>pol_name = ''Users can create their own projects'', pol_table = Projects, pol_command = INSERT, pol_expr = on_projects\<rparr>,
    \<lparr>pol_name = ''Users can update their own projects'', pol_table = Projects, pol_command = UPDATE, pol_expr = on_projects\<rparr>,
    \<lparr>pol_name = ''Users can delete their own projects'', pol_table = Projects, pol_command = DELETE, pol_expr = on_projects\<rparr>,
    \<lparr>pol_name = ''Users can view keywords in their projects'', pol_table = Keywords, pol_command = SELECT, pol_expr = on_keywords\<rparr>,
    \<lparr>pol_name = ''Users can create keywords in their projects'', pol_table = Keywords, pol_command = INSERT, pol_expr = on_keywords\<rparr>,
    \<lparr>pol_name = ''Users can update keywords in their projects'', pol_table = Keywords, pol_command = UPDATE, pol_expr = on_keywords\<rparr>,
    \<lparr>pol_name = ''Users can delete keywords in their projects'', pol_table = Keywords, pol_command = DELETE, pol_expr = on_keywords\<rparr>,
    \<lparr>pol_name = ''Users can view their own reports'', pol_table = Reports, pol_command = SELECT, pol_expr = on_reports\<rparr>,
    \<lparr>pol_name = ''Users can create their own reports'', pol_table = Reports, pol_command = INSERT, pol_expr = on_reports\<rparr>,
    \<lparr>pol_name = ''Users can update their own reports'', pol_table = Reports, pol_command = UPDATE, pol_expr = on_reports\<rparr>,
    \<lparr>pol_name = ''Users can view api_responses for their reports'', pol_table = Api_responses, pol_command = SELECT, pol_expr = on_api_responses\<rparr>,
    \<lparr>pol_name = ''Users can create api_responses for their reports'', pol_table = Api_responses, pol_command = INSERT, pol_expr = on_api_responses\<rparr>]"

text \<open>
  Row-level security is enabled on all four tables, so a command on a row passes only
  if some (permissive) policy of that table and command accepts the row; with no such
  policy the command is refused. An \<open>UPDATE\<close> policy without \<open>WITH CHECK\<close> applies its
  \<open>USING\<close> expression to the new row as well.
\<close>

definition rls_permits :: "database \<Rightarrow> uuid option \<Rightarrow> command \<Rightarrow> row \<Rightarrow> bool" where
  "rls_permits db auth_uid cmd r =
     list_ex (\<lambda>p. pol_table p = table_of r \<and> pol_command p = cmd \<and> pol_expr p db auth_uid r) policies"

definition rls_permits_update :: "database \<Rightarrow> uuid option \<Rightarrow> row \<Rightarrow> row \<Rightarrow> bool" where
  "rls_permits_update db auth_uid old new =
     (table_of old = table_of new \<and> rls_permits db auth_uid UPDATE old \<and> rls_permits db auth_uid UPDATE new)"

text \<open>
  The owner of a row: the \<open>user_id\<close> of a project or report, the owner of the project a
  keyword refers to, the owner of the report an API response refers to.
\<close>

fun owner :: "database \<Rightarrow> row \<Rightarrow> uuid option" where
  "owner db (Project_row p) = Some (project_user_id p)"
| "owner db (Report_row r) = Some (report_user_id r)"
| "owner db (Keyword_row k) =
     map_option project_user_id (find (\<lambda>p. project_id p = keyword_project_id k) (db_projects db))"
| "owner db (Api_response_row a) =
     map_option report_user_id (find (\<lambda>r. report_id r = api_response_report_id a) (db_reports db))"

text \<open>
  Two commands with their effects. \<open>insert_report\<close> is an \<open>INSERT\<close> of one row into
  \<open>reports\<close>: it needs the \<open>INSERT\<close> policy, the \<open>CHECK\<close> constraints, a fresh primary key
  and an existing project (foreign keys are checked without row-level security; the
  reference of \<open>user_id\<close> to \<open>auth.users\<close> is not modelled). \<open>delete_project\<close> is
  \<open>DELETE FROM projects WHERE id = pid\<close>, the command of the dashboard: it deletes the
  matching rows that the \<open>SELECT\<close> and \<open>DELETE\<close> policies accept, and \<open>ON DELETE CASCADE\<close>
  deletes, without consulting any policy, the keywords and reports that refer to a
  deleted project and the API responses that refer to a deleted report.
\<close>

definition insert_report :: "database \<Rightarrow> uuid option \<Rightarrow> report_row \<Rightarrow> sql_error + database" where
  "insert_report db auth_uid r =
     (if \<not> rls_permits db auth_uid INSERT (Report_row r) then Inl Rls_violation
      else if report_type r \<notin> {''keyword_tracking'', ''competitor_analysis'', ''citation_analysis''}
              \<or> status r \<notin> {''pending'', ''processing'', ''completed'', ''failed''}
      then Inl Check_violation
      else if report_id r \<in> set (map report_id (db_reports db)) then Inl Unique_violation
      else if report_project_id r \<notin> set (map project_id (db_projects db))
      then Inl Foreign_key_violation
      else Inr (db\<lparr>db_reports := db_reports db @ [r]\<rparr>))"

definition delete_project :: "database \<Rightarrow> uuid option \<Rightarrow> uuid \<Rightarrow> database" where
  "delete_project db auth_uid pid =
     (let deleted = filter (\<lambda>p. project_id p = pid \<and>
                                rls_permits db auth_uid SELECT (Project_row p) \<and>
                                rls_permits db auth_uid DELETE (Project_row p)) (db_projects db);
          gone = set (map project_id deleted);
          gone_reports = set (map report_id
                                (filter (\<lambda>r. report_project_id r \<in> gone) (db_reports db)))
      in \<lparr>db_projects = filter (\<lambda>p. p \<notin> set deleted) (db_projects db),
          db_keywords = filter (\<lambda>k. keyword_project_id k \<notin> gone) (db_keywords db),
          db_reports = filter (\<lambda>r. report_project_id r \<notin> gone) (db_reports db),
          db_api_responses =
            filter (\<lambda>a. api_response_report_id a \<notin> gone_reports) (db_api_responses db)\<rparr>)"

text \<open>
  A database for evaluating examples: user 1 owns project 10; \<open>foreign_report\<close> is a
  report of user 2 on that project.
\<close>

definition tenant_db :: database where
  "tenant_db =
     \<lparr>db_projects = [\<lparr>project_id = 10, project_user_id = 1, project_name = ''p'',
                       brand_name = ''b'', project_competitors = []\<rparr>],
      db_keywords = [], db_reports = [], db_api_responses = []\<rparr>"

definition foreign_report :: report_row where
  "foreign_report =
     \<lparr>report_id = 20, report_project_id = 10, report_user_id = 2,
      report_type = ''keyword_tracking'', status = ''pending''\<rparr>"

section \<open>Profile creation at signup (the migrations and \<open>handle_new_user\<close>)\<close>

text \<open>
  The trigger \<open>on_auth_user_created\<close> runs \<open>handle_new_user\<close> after each insert into
  \<open>auth.users\<close>. The function inserts \<open>(id, email, full_name)\<close> into \<open>profiles\<close>; every
  other column of the row takes the default that the table has for it at that moment. The
  columns and their defaults are what the migration scripts have left behind, so the
  scripts are modelled too, as lists of statements run on a database state: the enum
  types, the columns of \<open>profiles\<close> (none before \<open>CREATE TABLE\<close>) and its rows. A row
  gives a value to each column of the table, by name.

  A timestamp is a number of microseconds. \<open>now()\<close> is the start time of the transaction,
  the same in every default of one insert; adding \<open>interval 'n days'\<close> adds \<open>n\<close> days of
  24 hours (the session time zone is UTC).
\<close>

type_synonym timestamptz = int

definition plus_days :: "timestamptz \<Rightarrow> int \<Rightarrow> timestamptz" where
  "plus_days ts n = ts + n * 86400000000"

datatype sql_value =
  Null_value
| Uuid_value uuid
| Text_value string
| Int_value int
| Time_value timestamptz
| Enum_value string string

datatype column_type = Uuid_type | Text_type | Integer_type | Timestamptz_type | Enum_type string

datatype default_expr = Literal sql_value | Now | Now_plus_days int

record column =
  column_name :: string
  column_type :: column_type
  not_null :: bool
  column_default :: "default_expr option"

type_synonym profile_row = "(string \<times> sql_value) list"

record profiles_db =
  enum_types :: "(string \<times> string list) list"
  profiles_columns :: "column list option"
  profiles_rows :: "profile_row list"

definition empty_db :: profiles_db where
  "empty_db = \<lparr>enum_types = [], profiles_columns = None, profiles_rows = []\<rparr>"

fun eval_default :: "timestamptz \<Rightarrow> default_expr option \<Rightarrow> sql_value" where
  "eval_default now None = Null_value"
| "eval_default now (Some (Literal v)) = v"
| "eval_default now (Some Now) = Time_value now"
| "eval_default now (Some (Now_plus_days n)) = Time_value (plus_days now n)"

definition has_column :: "string \<Rightarrow> column list \<Rightarrow> bool" where
  "has_column n cols = (n \<in> set (map column_name cols))"

definition has_type :: "string \<Rightarrow> profiles_db \<Rightarrow> bool" where
  "has_type t db = (t \<in> set (map fst (enum_types db)))"

text \<open>
  The statements of the scripts that touch the table \<open>profiles\<close> or the type \<open>app_role\<close>.
  The other statements of the scripts (the other tables, the policies, functions,
  triggers and indexes) leave the columns of \<open>profiles\<close> and their defaults as they are.
\<close>

datatype statement =
  Create_type string "string list"
| Create_table_profiles "column list"
| Add_column_if_not_exists column
| Drop_type_if_exists_cascade string
| Alter_column_type string column_type
| Update_profiles "(string \<times> sql_value) list" string string

text \<open>
  \<open>ALTER COLUMN ... TYPE\<close> converts the values and the default of an existing column with
  PostgreSQL's casts, which are parameters of the model.
\<close>

record postgres =
  cast_value :: "column_type \<Rightarrow> column_type \<Rightarrow> sql_value \<Rightarrow> sql_error + sql_value"
  cast_default :: "column_type \<Rightarrow> column_type \<Rightarrow> default_expr \<Rightarrow> sql_error + default_expr"

fun sequence_sum :: "('e + 'a) list \<Rightarrow> 'e + 'a list" where
  "sequence_sum [] = Inr []"
| "sequence_sum (x # xs) =
     (case x of
        Inl e \<Rightarrow> Inl e
      | Inr v \<Rightarrow> (case sequence_sum xs of Inl e \<Rightarrow> Inl e | Inr vs \<Rightarrow> Inr (v # vs)))"

definition cast_row :: "postgres \<Rightarrow> string \<Rightarrow> column_type \<Rightarrow> column_type \<Rightarrow> profile_row \<Rightarrow> sql_error + profile_row" where
  "cast_row C c old new r =
     sequence_sum (map (\<lambda>(n, v). if n = c then map_sum (\<lambda>e. e) (\<lambda>v'. (n, v')) (cast_value C old new v)
                                   else Inr (n, v)) r)"

text \<open>
  \<open>UPDATE profiles SET ... WHERE c = 'lit'\<close>: a row is updated when its value of \<open>c\<close> is the
  text or the enum label \<open>lit\<close>. The trigger \<open>update_profiles_updated_at\<close> sets
  \<open>updated_at\<close> of each updated row to \<open>now()\<close>.
\<close>

fun value_is :: "sql_value option \<Rightarrow> string \<Rightarrow> bool" where
  "value_is (Some (Text_value s)) lit = (s = lit)"
| "value_is (Some (Enum_value t s)) lit = (s = lit)"
| "value_is _ lit = False"

definition update_row :: "timestamptz \<Rightarrow> (string \<times> sql_value) list \<Rightarrow> profile_row \<Rightarrow> profile_row" where
  "update_row now assignments r =
     map (\<lambda>(n, v). (n, if n = ''updated_at'' then Time_value now
                       else (case map_of assignments n of Some v' \<Rightarrow> v' | None \<Rightarrow> v))) r"

text \<open>
  One statement. \<open>DROP TYPE ... CASCADE\<close> drops, with the type, every column of that
  type. \<open>ADD COLUMN\<close> gives the existing rows the default of the new column.
\<close>

fun exec :: "postgres \<Rightarrow> timestamptz \<Rightarrow> statement \<Rightarrow> profiles_db \<Rightarrow> sql_error + profiles_db" where
  "exec C now (Create_type t labels) db =
     (if has_type t db then Inl (Duplicate_object t)
      else Inr (db\<lparr>enum_types := enum_types db @ [(t, labels)]\<rparr>))"
| "exec C now (Create_table_profiles cols) db =
     (case profiles_columns db of
        Some _ \<Rightarrow> Inl (Duplicate_table ''profiles'')
      | None \<Rightarrow>
          (case find (\<lambda>c. case column_type c of Enum_type t \<Rightarrow> \<not> has_type t db | _ \<Rightarrow> False) cols of
             Some c \<Rightarrow> Inl (Undefined_object (case column_type c of Enum_type t \<Rightarrow> t | _ \<Rightarrow> []))
           | None \<Rightarrow> Inr (db\<lparr>profiles_columns := Some cols, profiles_rows := []\<rparr>)))"
| "exec C now (Add_column_if_not_exists c) db =
     (case profiles_columns db of
        None \<Rightarrow> Inl (Undefined_table ''profiles'')
      | Some cols \<Rightarrow>
          if has_column (column_name c) cols then Inr db
          else Inr (db\<lparr>profiles_columns := Some (cols @ [c]),
                       profiles_rows := map (\<lambda>r. r @ [(column_name c, eval_default now (column_default c))])
                                          (profiles_rows db)\<rparr>))"
| "exec C now (Drop_type_if_exists_cascade t) db =
     (if \<not> has_type t db then Inr db
      else
        let dropped = (case profiles_columns db of
                         None \<Rightarrow> []
                       | Some cols \<Rightarrow> map column_name (filter (\<lambda>c. column_type c = Enum_type t) cols))
        in Inr (db\<lparr>enum_types := filter (\<lambda>(n, labels). n \<noteq> t) (enum_types db),
                   profiles_columns := map_option (filter (\<lambda>c. column_type c \<noteq> Enum_type t))
                                         (profiles_columns db),
                   profiles_rows := map (filter (\<lambda>(n, v). n \<notin> set dropped)) (profiles_rows db)\<rparr>))"
| "exec C now (Alter_column_type c ty) db =
     (case profiles_columns db of
        None \<Rightarrow> Inl (Undefined_table ''profiles'')
      | Some cols \<Rightarrow>
          (case find (\<lambda>col. column_name col = c) cols of
             None \<Rightarrow> Inl (Undefined_column c)
           | Some col \<Rightarrow>
               if (case ty of Enum_type t \<Rightarrow> \<not> has_type t db | _ \<Rightarrow> False)
               then Inl (Undefined_object (case ty of Enum_type t \<Rightarrow> t | _ \<Rightarrow> []))
               else
                 (case (case column_default col of
                          None \<Rightarrow> Inr None
                        | Some d \<Rightarrow> map_sum (\<lambda>e. e) Some (cast_default C (column_type col) ty d)) of
                    Inl e \<Rightarrow> Inl e
                  | Inr d' \<Rightarrow>
                      (case sequence_sum (map (cast_row C c (column_type col) ty) (profiles_rows db)) of
                         Inl e \<Rightarrow> Inl e
                       | Inr rows' \<Rightarrow>
                           Inr (db\<lparr>profiles_columns :=
                                      Some (map (\<lambda>col'. if column_name col' = c
                                                        then col'\<lparr>column_type := ty, column_default := d'\<rparr>
                                                        else col') cols),
                                    profiles_rows := rows'\<rparr>)))))"
| "exec C now (Update_profiles assignments c lit) db =
     (case profiles_columns db of
        None \<Rightarrow> Inl (Undefined_table ''profiles'')
      | Some cols \<Rightarrow>
          (case find (\<lambda>n. \<not> has_column n cols) (c # map fst assignments) of
             Some n \<Rightarrow> Inl (Undefined_column n)
           | None \<Rightarrow>
               if list_ex (\<lambda>col. column_name col = c \<and>
                                  (case column_type col of
                                     Enum_type t \<Rightarrow> lit \<notin> set (case map_of (enum_types db) t of Some labels \<Rightarrow> labels | None \<Rightarrow> [])
                                   | _ \<Rightarrow> False)) cols
               then Inl Invalid_text_representation
               else Inr (db\<lparr>profiles_rows :=
                              map (\<lambda>r. if value_is (map_of r c) lit then update_row now assignments r else r)
                                (profiles_rows db)\<rparr>)))"

text \<open>
  A script run as one transaction stops at the first error, and the database stays as it
  was before the script. A script run statement by statement skips each statement that
  fails; statement \<open>i\<close> runs at the time \<open>now i\<close>.
\<close>

fun run_transaction :: "postgres \<Rightarrow> timestamptz \<Rightarrow> statement list \<Rightarrow> profiles_db \<Rightarrow> sql_error + profiles_db" where
  "run_transaction C now [] db = Inr db"
| "run_transaction C now (s # ss) db =
     (case exec C now s db of Inl e \<Rightarrow> Inl e | Inr db' \<Rightarrow> run_transaction C now ss db')"

definition migrate :: "postgres \<Rightarrow> timestamptz \<Rightarrow> statement list \<Rightarrow> profiles_db \<Rightarrow> profiles_db" where
  "migrate C now script db = (case run_transaction C now script db of Inl e \<Rightarrow> db | Inr db' \<Rightarrow> db')"

fun run_each :: "postgres \<Rightarrow> (nat \<Rightarrow> timestamptz) \<Rightarrow> nat \<Rightarrow> statement list \<Rightarrow> profiles_db \<Rightarrow> profiles_db" where
  "run_each C now i [] db = db"
| "run_each C now i (s # ss) db =
     run_each C now (Suc i) ss (case exec C (now i) s db of Inl e \<Rightarrow> db | Inr db' \<Rightarrow> db')"

text \<open>The first migration: \<open>CREATE TYPE app_role\<close> and \<open>CREATE TABLE profiles\<close>.\<close>

definition initial_columns :: "column list" where
  "initial_columns =
     [\<lparr>column_name = ''id'', column_type = Uuid_type, not_null = True, column_default = None\<rparr>,
      \<lparr>column_name = ''email'', column_type = Text_type, not_null = True, column_default = None\<rparr>,
      \<lparr>column_name = ''full_name'', column_type = Text_type, not_null = False, column_default = None\<rparr>,
      \<lparr>column_name = ''company'', column_type = Text_type, not_null = False, column_default = None\<rparr>,
      \<lparr>column_name = ''plan'', column_type = Enum_type ''app_role'', not_null = True,
        column_default = Some (Literal (Enum_value ''app_role'' ''trial''))\<rparr>,
      \<lparr>column_name = ''plan_expires_at'', column_type = Timestamptz_type, not_null = False,
        column_default = None\<rparr>,
      \<lparr>column_name = ''projects_limit'', column_type = Integer_type, not_null = True,
        column_default = Some (Literal (Int_value 1))\<rparr>,
      \<lparr>column_name = ''keywords_limit'', column_type = Integer_type, not_null = True,
        column_default = Some (Literal (Int_value 10))\<rparr>,
      \<lparr>column_name = ''reports_limit'', column_type = Integer_type, not_null = True,
        column_default = Some (Literal (Int_value 5))\<rparr>,
      \<lparr>column_name = ''created_at'', column_type = Timestamptz_type, not_null = True,
        column_default = Some Now\<rparr>,
      \<lparr>column_name = ''updated_at'', column_type = Timestamptz_type, not_null = True,
        column_default = Some Now\<rparr>]"

definition first_migration :: "statement list" where
  "first_migration =
     [Create_type ''app_role'' [''admin'', ''trial'', ''basic'', ''gold''],
      Create_table_profiles initial_columns]"

text \<open>
  The trial migration (\<open>part_000\<close>): \<open>ADD COLUMN IF NOT EXISTS trial_ends_at\<close>,
  \<open>DROP TYPE IF EXISTS app_role CASCADE\<close>, \<open>CREATE TYPE app_role\<close>, the two
  \<open>ALTER COLUMN plan TYPE\<close> and the three \<open>UPDATE\<close>.
\<close>

definition trial_migration :: "statement list" where
  "trial_migration =
     [Add_column_if_not_exists
        \<lparr>column_name = ''trial_ends_at'', column_type = Timestamptz_type, not_null = False,
          column_default = Some (Now_plus_days 14)\<rparr>,
      Drop_type_if_exists_cascade ''app_role'',
      Create_type ''app_role'' [''trial'', ''basic'', ''gold''],
      Alter_column_type ''plan'' Text_type,
      Alter_column_type ''plan'' (Enum_type ''app_role''),
      Update_profiles [(''projects_limit'', Int_value 1), (''keywords_limit'', Int_value 10),
                       (''reports_limit'', Int_value 5)] ''plan'' ''trial'',
      Update_profiles [(''projects_limit'', Int_value 3), (''keywords_limit'', Int_value 25),
                       (''reports_limit'', Int_value 15)] ''plan'' ''basic'',
      Update_profiles [(''projects_limit'', Int_value 10), (''keywords_limit'', Int_value 50),
                       (''reports_limit'', Int_value 50)] ''plan'' ''gold'']"

text \<open>
  \<open>INSERT INTO profiles (...) VALUES (...)\<close>: a column that is not given takes its default,
  \<open>NULL\<close> without one. The insert fails on a \<open>NULL\<close> in a \<open>NOT NULL\<close> column and on an
  existing \<open>id\<close> (\<open>PRIMARY KEY\<close>).
\<close>

definition insert_profile :: "timestamptz \<Rightarrow> (string \<times> sql_value) list \<Rightarrow> profiles_db \<Rightarrow> sql_error + profiles_db" where
  "insert_profile now given db =
     (case profiles_columns db of
        None \<Rightarrow> Inl (Undefined_table ''profiles'')
      | Some cols \<Rightarrow>
          (case find (\<lambda>n. \<not> has_column n cols) (map fst given) of
             Some n \<Rightarrow> Inl (Undefined_column n)
           | None \<Rightarrow>
               let r = map (\<lambda>c. (column_name c,
                                  (case map_of given (column_name c) of
                                     Some v \<Rightarrow> v
                                   | None \<Rightarrow> eval_default now (column_default c)))) cols
               in if list_ex (\<lambda>c. not_null c \<and> map_of r (column_name c) = Some Null_value) cols
                  then Inl Not_null_violation
                  else if map_of r ''id'' \<in> set (map (\<lambda>r'. map_of r' ''id'') (profiles_rows db))
                  then Inl Unique_violation
                  else Inr (db\<lparr>profiles_rows := profiles_rows db @ [r]\<rparr>)))"

record auth_user =
  auth_user_id :: uuid
  auth_user_email :: "string option"
  raw_user_meta_data :: "string \<rightharpoonup> string"

definition COALESCE :: "'a option \<Rightarrow> 'a option \<Rightarrow> 'a option" where
  "COALESCE a b = (case a of Some x \<Rightarrow> Some x | None \<Rightarrow> b)"

definition text_or_null :: "string option \<Rightarrow> sql_value" where
  "text_or_null s = (case s of None \<Rightarrow> Null_value | Some t \<Rightarrow> Text_value t)"

definition handle_new_user :: "timestamptz \<Rightarrow> auth_user \<Rightarrow> profiles_db \<Rightarrow> sql_error + profiles_db" where
  "handle_new_user now NEW db =
     insert_profile now
       [(''id'', Uuid_value (auth_user_id NEW)),
        (''email'', text_or_null (auth_user_email NEW)),
        (''full_name'',
           text_or_null (COALESCE (raw_user_meta_data NEW ''full_name'') (raw_user_meta_data NEW ''name'')))]
       db"

section \<open>Plan limits in the client (\<open>usePlanLimits\<close>)\<close>

text \<open>
  The hook keeps the limits in its state, initially all \<open>0\<close> and loading. A limit read
  from the fetched object is \<open>None\<close> (\<open>undefined\<close>) when the object lacks the member.
  Usage counts are integers. A comparison with \<open>undefined\<close> is false, and \<open>undefined\<close> is
  not \<open>-1\<close>.
\<close>

datatype usage_key = Key_projects | Key_keywords | Key_reports | Key_competitors

record Usage =
  usage_projects :: int
  usage_keywords :: int
  usage_reports :: int
  usage_competitors :: int

record PlanLimits =
  limit_projects :: "int option"
  limit_keywords :: "int option"
  limit_reports :: "int option"
  limit_competitors :: "int option"
  isLoading :: bool

fun usage_at :: "Usage \<Rightarrow> usage_key \<Rightarrow> int" where
  "usage_at u Key_projects = usage_projects u"
| "usage_at u Key_keywords = usage_keywords u"
| "usage_at u Key_reports = usage_reports u"
| "usage_at u Key_competitors = usage_competitors u"

fun limit_at :: "PlanLimits \<Rightarrow> usage_key \<Rightarrow> int option" where
  "limit_at l Key_projects = limit_projects l"
| "limit_at l Key_keywords = limit_keywords l"
| "limit_at l Key_reports = limit_reports l"
| "limit_at l Key_competitors = limit_competitors l"

definition initial_limits :: PlanLimits where
  "initial_limits =
     \<lparr>limit_projects = Some 0, limit_keywords = Some 0, limit_reports = Some 0,
      limit_competitors = Some 0, isLoading = True\<rparr>"

text \<open>
  \<open>fetchPlanLimits\<close>: without a profile, or when the remote call reports an error or
  throws, only \<open>isLoading\<close> changes; otherwise the four members of the returned object
  replace the limits. The remote call is \<open>get_plan_limits\<close> on the profile's plan.
\<close>

datatype 'a rpc_result = Rpc_error | Rpc_throws | Rpc_data 'a

definition fetchPlanLimits :: "string option \<Rightarrow> (string \<Rightarrow> jsonb_obj rpc_result) \<Rightarrow> PlanLimits \<Rightarrow> PlanLimits" where
  "fetchPlanLimits profile_plan rpc prev =
     (case profile_plan of
        None \<Rightarrow> prev\<lparr>isLoading := False\<rparr>
      | Some plan_type \<Rightarrow>
          (case rpc plan_type of
             Rpc_error \<Rightarrow> prev\<lparr>isLoading := False\<rparr>
           | Rpc_throws \<Rightarrow> prev\<lparr>isLoading := False\<rparr>
           | Rpc_data planLimits \<Rightarrow>
               \<lparr>limit_projects = planLimits ''projects'',
                limit_keywords = planLimits ''keywords'',
                limit_reports = planLimits ''reports'',
                limit_competitors = planLimits ''competitors'',
                isLoading = False\<rparr>))"

definition checkLimitReached :: "PlanLimits \<Rightarrow> Usage \<Rightarrow> usage_key \<Rightarrow> bool" where
  "checkLimitReached limits usage type =
     (case limit_at limits type of
        None \<Rightarrow> False
      | Some limit \<Rightarrow> limit \<noteq> - 1 \<and> usage_at usage type \<ge> limit)"

definition getUsagePercentage :: "int \<Rightarrow> int \<Rightarrow> jsnum" where
  "getUsagePercentage usage limit =
     (if limit = - 1 then Num 0
      else Math_min (js_mul (js_div (Num (of_int usage)) (Num (of_int limit))) (Num 100)) (Num 100))"

section \<open>Brand analysis (\<open>parseBrandAnalysis\<close> and its extractors)\<close>

text \<open>
  Values at run time. The fields of a parsed reply hold whatever \<open>JSON.parse\<close> produced,
  so they are values of any kind. An object is the list of its own properties (keys
  distinct). \<open>JSON.parse\<close> and \<open>String.prototype.toLowerCase\<close> belong to the platform and
  are parameters of the model; \<open>JSON_parse\<close> is \<open>None\<close> where \<open>JSON.parse\<close> throws.
\<close>

datatype jsval =
  Undefined
| Null
| Bool bool
| Number jsnum
| String jsstring
| Array "jsval list"
| Object "(jsstring \<times> jsval) list"

record platform =
  JSON_parse :: "jsstring \<Rightarrow> jsval option"
  toLowerCase :: "jsstring \<Rightarrow> jsstring"

datatype js_error = TypeError | Error

text \<open>
  Reading a property: a \<open>TypeError\<close> on \<open>undefined\<close> and \<open>null\<close>, the own property of an
  object, and \<open>undefined\<close> on every other value (none of the names read below is a
  property of a boolean, number, string or array). \<open>opt_prop\<close> is \<open>v?.name\<close>,
  \<open>nullish_or\<close> is \<open>a ?? b\<close>, \<open>truthy\<close> is the conversion to a boolean.
\<close>

fun get_prop :: "jsval \<Rightarrow> jsstring \<Rightarrow> js_error + jsval" where
  "get_prop Undefined name = Inl TypeError"
| "get_prop Null name = Inl TypeError"
| "get_prop (Object props) name = Inr (case map_of props name of Some v \<Rightarrow> v | None \<Rightarrow> Undefined)"
| "get_prop v name = Inr Undefined"

definition opt_prop :: "jsval \<Rightarrow> jsstring \<Rightarrow> jsval" where
  "opt_prop v name = (case get_prop v name of Inl e \<Rightarrow> Undefined | Inr x \<Rightarrow> x)"

definition nullish_or :: "jsval \<Rightarrow> jsval \<Rightarrow> jsval" where
  "nullish_or a b = (if a = Undefined \<or> a = Null then b else a)"

fun truthy :: "jsval \<Rightarrow> bool" where
  "truthy Undefined = False"
| "truthy Null = False"
| "truthy (Bool b) = b"
| "truthy (Number n) = (n \<noteq> Num 0 \<and> n \<noteq> NaN)"
| "truthy (String s) = (s \<noteq> [])"
| "truthy v = True"

text \<open>String operations: \<open>indexOf\<close>, \<open>includes\<close> (here \<open>js_includes\<close>), \<open>substring\<close>.\<close>

fun indexOf :: "jsstring \<Rightarrow> jsstring \<Rightarrow> nat option" where
  "indexOf [] needle = (if needle = [] then Some 0 else None)"
| "indexOf (c # cs) needle =
     (if take (length needle) (c # cs) = needle then Some 0
      else map_option Suc (indexOf cs needle))"

definition js_includes :: "jsstring \<Rightarrow> jsstring \<Rightarrow> bool" where
  "js_includes s needle = (indexOf s needle \<noteq> None)"

definition substring :: "jsstring \<Rightarrow> int \<Rightarrow> int \<Rightarrow> jsstring" where
  "substring s start finish =
     (let len = int (length s);
          a = max 0 (min start len);
          b = max 0 (min finish len)
      in take (nat (max a b - min a b)) (drop (nat (min a b)) s))"

text \<open>
  The regular expressions. \<open>/\{[\s\S]*\}/\<close> matches from the first \<open>{\<close> to the last \<open>}\<close>
  after it. The other two carry the flag \<open>i\<close>: a code unit matches a letter of the
  pattern when both have the same ASCII upper case (a code unit outside ASCII never
  matches an ASCII letter). A search tries the start positions from the left. In
  \<open>/(?:position|rank|#|number)\s*:?\s*(\d+)/i\<close> the alternatives begin with different
  letters and white space, colon and digits are disjoint classes, so at each start
  position the greedy match is the only candidate; likewise for
  \<open>/confidence[:\s]*(\d+)/i\<close>. The result of a match is its group 1.
\<close>

definition json_block :: "jsstring \<Rightarrow> jsstring option" where
  "json_block content =
     (let from_brace = dropWhile (\<lambda>c. c \<noteq> of_char CHR ''{'') content
      in if of_char CHR ''}'' \<in> set from_brace
         then Some (rev (dropWhile (\<lambda>c. c \<noteq> of_char CHR ''}'') (rev from_brace)))
         else None)"

definition isDigit :: "code_unit \<Rightarrow> bool" where
  "isDigit c = (48 \<le> c \<and> c \<le> 57)"

definition upper :: "code_unit \<Rightarrow> code_unit" where
  "upper c = (if 97 \<le> c \<and> c \<le> 122 then c - 32 else c)"

fun strip_prefix_ci :: "jsstring \<Rightarrow> jsstring \<Rightarrow> jsstring option" where
  "strip_prefix_ci [] s = Some s"
| "strip_prefix_ci (p # ps) [] = None"
| "strip_prefix_ci (p # ps) (c # cs) = (if upper p = upper c then strip_prefix_ci ps cs else None)"

fun first_alternative :: "jsstring list \<Rightarrow> jsstring \<Rightarrow> jsstring option" where
  "first_alternative [] s = None"
| "first_alternative (k # ks) s =
     (case strip_prefix_ci k s of Some rest \<Rightarrow> Some rest | None \<Rightarrow> first_alternative ks s)"

definition digits_capture :: "jsstring \<Rightarrow> jsstring option" where
  "digits_capture s = (let ds = takeWhile isDigit s in if ds = [] then None else Some ds)"

definition optional_colon :: "jsstring \<Rightarrow> jsstring" where
  "optional_colon s = (case s of [] \<Rightarrow> [] | c # cs \<Rightarrow> if c = of_char CHR '':'' then cs else c # cs)"

definition position_words :: "jsstring list" where
  "position_words = [js ''position'', js ''rank'', js ''#'', js ''number'']"

definition position_at :: "jsstring \<Rightarrow> jsstring option" where
  "position_at s =
     (case first_alternative position_words s of
        None \<Rightarrow> None
      | Some rest \<Rightarrow>
          digits_capture
            (dropWhile isWhiteSpace (optional_colon (dropWhile isWhiteSpace rest))))"

definition confidence_at :: "jsstring \<Rightarrow> jsstring option" where
  "confidence_at s =
     (case strip_prefix_ci (js ''confidence'') s of
        None \<Rightarrow> None
      | Some rest \<Rightarrow>
          digits_capture (dropWhile (\<lambda>c. c = of_char CHR '':'' \<or> isWhiteSpace c) rest))"

fun search :: "(jsstring \<Rightarrow> 'a option) \<Rightarrow> jsstring \<Rightarrow> 'a option" where
  "search pat [] = pat []"
| "search pat (c # cs) = (case pat (c # cs) of Some m \<Rightarrow> Some m | None \<Rightarrow> search pat cs)"

text \<open>
  What the two patterns accept at a start position, written out: the string begins with
  a key word (letters compared by their upper case), then white space, at most one colon
  and white space again (for \<open>confidence\<close>: any run of colons and white space), then the
  captured digits \<open>ds\<close>, at least one and as many as there are.
\<close>

definition matches_position :: "jsstring \<Rightarrow> jsstring \<Rightarrow> bool" where
  "matches_position s ds \<longleftrightarrow>
     (\<exists>kw a col b rest.
        s = kw @ a @ col @ b @ ds @ rest \<and>
        map upper kw \<in> set (map (map upper) position_words) \<and>
        (\<forall>c \<in> set a. isWhiteSpace c) \<and> (col = [] \<or> col = [of_char CHR '':'']) \<and>
        (\<forall>c \<in> set b. isWhiteSpace c) \<and>
        ds \<noteq> [] \<and> (\<forall>c \<in> set ds. isDigit c) \<and> (rest = [] \<or> \<not> isDigit (hd rest)))"

definition matches_confidence :: "jsstring \<Rightarrow> jsstring \<Rightarrow> bool" where
  "matches_confidence s ds \<longleftrightarrow>
     (\<exists>kw sep rest.
        s = kw @ sep @ ds @ rest \<and>
        map upper kw = map upper (js ''confidence'') \<and>
        (\<forall>c \<in> set sep. c = of_char CHR '':'' \<or> isWhiteSpace c) \<and>
        ds \<noteq> [] \<and> (\<forall>c \<in> set ds. isDigit c) \<and> (rest = [] \<or> \<not> isDigit (hd rest)))"

text \<open>
  The result \<open>m\<close> of a search is the leftmost match: with no result, no suffix of the
  content matches; with the result \<open>ds\<close>, some suffix matches with the capture \<open>ds\<close> and
  no suffix that starts before it matches.
\<close>

definition leftmost_match :: "(jsstring \<Rightarrow> jsstring \<Rightarrow> bool) \<Rightarrow> jsstring \<Rightarrow> jsstring option \<Rightarrow> bool" where
  "leftmost_match matches content m \<longleftrightarrow>
     (case m of
        None \<Rightarrow> \<forall>pre suf ds. content = pre @ suf \<longrightarrow> \<not> matches suf ds
      | Some ds \<Rightarrow>
          \<exists>pre suf. content = pre @ suf \<and> matches suf ds \<and>
            (\<forall>pre' suf' ds'. content = pre' @ suf' \<and> length pre' < length pre \<longrightarrow> \<not> matches suf' ds'))"

text \<open>
  \<open>parseInt(ds, 10)\<close> on a run of decimal digits: the number value of the integer that
  the digits write.
\<close>

definition decimal :: "jsstring \<Rightarrow> nat" where
  "decimal ds = foldl (\<lambda>n d. 10 * n + (d - 48)) 0 ds"

definition parseInt10 :: "jsstring \<Rightarrow> jsval" where
  "parseInt10 ds = Number (double_of_nat (decimal ds))"

definition extractPosition :: "jsstring \<Rightarrow> jsval" where
  "extractPosition content =
     (case search position_at content of Some ds \<Rightarrow> parseInt10 ds | None \<Rightarrow> Null)"

definition extractConfidence :: "jsstring \<Rightarrow> jsval" where
  "extractConfidence content =
     (case search confidence_at content of Some ds \<Rightarrow> parseInt10 ds | None \<Rightarrow> Number (Num 50))"

definition extractContext :: "platform \<Rightarrow> jsstring \<Rightarrow> jsstring \<Rightarrow> jsstring" where
  "extractContext P content brandName =
     (let lowerContent = toLowerCase P content;
          lowerBrandName = toLowerCase P brandName
      in case indexOf lowerContent lowerBrandName of
           None \<Rightarrow> []
         | Some brandIndex \<Rightarrow>
             (let start = max 0 (int brandIndex - 100);
                  finish = min (int (length content)) (int brandIndex + 200)
              in trim (substring content start finish)))"

record CompetitorMention =
  comp_name :: jsval
  comp_mentioned :: jsval
  comp_position :: jsval
  comp_context :: jsval

record BrandAnalysis =
  keyword :: jsstring
  brandMentioned :: jsval
  position :: jsval
  confidence :: jsval
  context_text :: jsval
  competitors :: "CompetitorMention list"

text \<open>
  \<open>parsedData.competitors.map(comp => ...)\<close>, with \<open>cmp\<close> for the element \<open>comp\<close>:
  reading \<open>comp.name\<close> throws on a \<open>null\<close> element; \<open>comp.context || ''\<close> replaces a falsy
  context by the empty string.
\<close>

definition competitor_of :: "jsval \<Rightarrow> js_error + CompetitorMention" where
  "competitor_of cmp =
     (case get_prop cmp (js ''name'') of
        Inl e \<Rightarrow> Inl e
      | Inr n \<Rightarrow>
          Inr \<lparr>comp_name = n,
               comp_mentioned = opt_prop cmp (js ''mentioned''),
               comp_position = opt_prop cmp (js ''position''),
               comp_context =
                 (if truthy (opt_prop cmp (js ''context'')) then opt_prop cmp (js ''context'')
                  else String [])\<rparr>)"

fun map_competitors :: "jsval list \<Rightarrow> js_error + CompetitorMention list" where
  "map_competitors [] = Inr []"
| "map_competitors (cmp # comps) =
     (case competitor_of cmp of
        Inl e \<Rightarrow> Inl e
      | Inr m \<Rightarrow> (case map_competitors comps of Inl e \<Rightarrow> Inl e | Inr ms \<Rightarrow> Inr (m # ms)))"

definition parsed_data :: "platform \<Rightarrow> jsstring \<Rightarrow> jsval" where
  "parsed_data P content =
     (case json_block content of
        None \<Rightarrow> Object []
      | Some jsonMatch \<Rightarrow>
          (case JSON_parse P jsonMatch of None \<Rightarrow> Object [] | Some v \<Rightarrow> v))"

definition parseBrandAnalysis :: "platform \<Rightarrow> jsstring \<Rightarrow> jsstring \<Rightarrow> jsstring \<Rightarrow> js_error + BrandAnalysis" where
  "parseBrandAnalysis P content keyword_arg brandName =
     (let parsedData = parsed_data P content
      in case get_prop parsedData (js ''targetBrand'') of
           Inl e \<Rightarrow> Inl e
         | Inr targetBrand \<Rightarrow>
             (let brandMentioned_v = nullish_or (opt_prop targetBrand (js ''mentioned''))
                    (Bool (js_includes (toLowerCase P content) (toLowerCase P brandName)));
                  position_v = nullish_or (opt_prop targetBrand (js ''position''))
                    (extractPosition content);
                  confidence_v = nullish_or (opt_prop parsedData (js ''confidence''))
                    (extractConfidence content);
                  context_v = nullish_or (opt_prop targetBrand (js ''context''))
                    (String (extractContext P content brandName))
              in case (case opt_prop parsedData (js ''competitors'') of
                         Array comps \<Rightarrow> map_competitors comps
                       | _ \<Rightarrow> Inr []) of
                   Inl e \<Rightarrow> Inl e
                 | Inr competitors_v \<Rightarrow>
                     Inr \<lparr>keyword = keyword_arg,
                          brandMentioned = brandMentioned_v,
                          position = position_v,
                          confidence = confidence_v,
                          context_text = context_v,
                          competitors = competitors_v\<rparr>))"

text \<open>
  The reading of the specification's sentence about the position, written from its
  words: the first integer that follows an occurrence of \<open>position\<close>, \<open>rank\<close>, \<open>#\<close> or
  \<open>number\<close> in the content, that is, the first run of digits after the first such
  occurrence; none if there is no occurrence or no digit after it.
\<close>

fun after_first_occurrence :: "jsstring list \<Rightarrow> jsstring \<Rightarrow> jsstring option" where
  "after_first_occurrence words [] = None"
| "after_first_occurrence words (c # cs) =
     (case find (\<lambda>w. take (length w) (c # cs) = w) words of
        Some w \<Rightarrow> Some (drop (length w) (c # cs))
      | None \<Rightarrow> after_first_occurrence words cs)"

definition first_integer :: "jsstring \<Rightarrow> nat option" where
  "first_integer s =
     (let from_digit = dropWhile (\<lambda>c. \<not> isDigit c) s
      in if from_digit = [] then None else Some (decimal (takeWhile isDigit from_digit)))"

definition spec_position :: "jsstring \<Rightarrow> jsval" where
  "spec_position content =
     (case after_first_occurrence position_words content of
        None \<Rightarrow> Null
      | Some rest \<Rightarrow>
          (case first_integer rest of None \<Rightarrow> Null | Some n \<Rightarrow> Number (Num (of_nat n))))"

text \<open>
  A platform for evaluating examples. Its \<open>JSON_parse\<close> knows one text, which it parses
  as \<open>JSON.parse\<close> does, and rejects every other text; its \<open>toLowerCase\<close> maps the ASCII
  capitals. It agrees with JavaScript on the texts of the examples below.
\<close>

definition sample_platform :: platform where
  "sample_platform =
     \<lparr>JSON_parse = (\<lambda>s. if s = js ''{\"competitors\":[null]}''
                          then Some (Object [(js ''competitors'', Array [Null])]) else None),
      toLowerCase = map (\<lambda>c. if 65 \<le> c \<and> c \<le> 90 then c + 32 else c)\<rparr>"

section \<open>Report generation (\<open>analyzeBrandMention\<close>, \<open>handleGenerateReport\<close>)\<close>

text \<open>
  \<open>analyzeBrandMention\<close> sends one request and parses the reply. The exchange is the
  environment's: either it yields the completion text (the empty string when the reply
  carries none), or the \<open>try\<close> block throws before parsing (no connection, a status that
  is not ok, a body that is not the expected JSON). Every error inside the \<open>try\<close> block,
  one thrown by \<open>parseBrandAnalysis\<close> included, is caught and thrown again as an
  \<open>Error\<close>.
\<close>

record BrandAnalysisResult = BrandAnalysis +
  rawResponse :: jsstring

datatype api_reply = Api_failure | Api_content jsstring

definition analyzeBrandMention :: "platform \<Rightarrow> api_reply \<Rightarrow> jsstring \<Rightarrow> jsstring \<Rightarrow> js_error + BrandAnalysisResult" where
  "analyzeBrandMention P reply keyword_arg brandName =
     (case reply of
        Api_failure \<Rightarrow> Inl Error
      | Api_content content \<Rightarrow>
          (case parseBrandAnalysis P content keyword_arg brandName of
             Inl e \<Rightarrow> Inl Error
           | Inr analysisResult \<Rightarrow>
               Inr \<lparr>keyword = keyword analysisResult,
                    brandMentioned = brandMentioned analysisResult,
                    position = position analysisResult,
                    confidence = confidence analysisResult,
                    context_text = context_text analysisResult,
                    competitors = competitors analysisResult,
                    rawResponse = content\<rparr>))"

text \<open>
  The page component. Its state holds the project, the keyword list, the brand name, the
  competitors, the API key and the flag \<open>isGeneratingReport\<close>. The page calls
  \<open>handleGenerateReport\<close> from one place, the button, which is disabled
  (\<open>generate_disabled\<close>) without keywords, with a blank API key and while a report is
  being generated. What \<open>handleGenerateReport\<close> does to the outside is the list of its
  events, in order, and the rows that the table \<open>api_responses\<close> gains. The environment
  decides the outcome of the report insert, the reply to the request of the \<open>i\<close>-th loop
  round and the outcome of the \<open>api_responses\<close> insert of that round: the row is stored
  (\<open>Insert_ok\<close>), or the insert returns an error, which the code does not look at
  (\<open>Insert_rejected\<close>), or it throws, which reaches the \<open>catch\<close> of the round
  (\<open>Insert_throws\<close>). The outcome of the final report update is not modelled.
\<close>

record keyword_item =
  item_id :: uuid
  item_keyword :: jsstring

record page_state =
  project :: "project_row option"
  keyword_items :: "keyword_item list"
  brandName :: jsstring
  competitor_names :: "jsstring list"
  openaiApiKey :: jsstring
  isGeneratingReport :: bool

definition generate_disabled :: "page_state \<Rightarrow> bool" where
  "generate_disabled st =
     (keyword_items st = [] \<or> trim (openaiApiKey st) = [] \<or> isGeneratingReport st)"

datatype report_insert = Report_error | Report_created uuid

datatype insert_result = Insert_ok | Insert_rejected | Insert_throws

record environment =
  create_report :: report_insert
  reply_of :: "nat \<Rightarrow> api_reply"
  store_of :: "nat \<Rightarrow> insert_result"

text \<open>The row that a round inserts into \<open>api_responses\<close>.\<close>

record api_response_insert =
  ins_report_id :: uuid
  ins_keyword :: jsstring
  ins_provider :: jsstring
  ins_raw_response :: jsstring
  ins_brandMentioned :: jsval
  ins_position :: jsval
  ins_confidence :: jsval
  ins_context :: jsval

definition api_response_of :: "uuid \<Rightarrow> jsstring \<Rightarrow> BrandAnalysisResult \<Rightarrow> api_response_insert" where
  "api_response_of rid keyword_arg result =
     \<lparr>ins_report_id = rid,
      ins_keyword = keyword_arg,
      ins_provider = js ''openai'',
      ins_raw_response = rawResponse result,
      ins_brandMentioned = brandMentioned result,
      ins_position = position result,
      ins_confidence = confidence result,
      ins_context = context_text result\<rparr>"

datatype event =
  Set_generating bool
| Set_results "BrandAnalysisResult list"
| Insert_report uuid uuid
| Analyze jsstring jsstring "jsstring list" jsstring
| Insert_api_response api_response_insert
| Update_report uuid nat "BrandAnalysisResult list"
| Toast jsstring

fun is_Analyze :: "event \<Rightarrow> bool" where
  "is_Analyze (Analyze k b cs key) = True"
| "is_Analyze e = False"

fun is_Insert_api_response :: "event \<Rightarrow> bool" where
  "is_Insert_api_response (Insert_api_response r) = True"
| "is_Insert_api_response e = False"

text \<open>
  The outcome of a run: the events, the final \<open>results\<close> array and the rows stored in
  \<open>api_responses\<close>.
\<close>

record outcome =
  events :: "event list"
  results :: "BrandAnalysisResult list"
  stored_rows :: "api_response_insert list"

fun analyze_keywords ::
  "platform \<Rightarrow> environment \<Rightarrow> page_state \<Rightarrow> uuid \<Rightarrow> nat \<Rightarrow> keyword_item list \<Rightarrow>
   BrandAnalysisResult list \<Rightarrow> outcome" where
  "analyze_keywords P env st rid i [] results_so_far =
     \<lparr>events = [], results = results_so_far, stored_rows = []\<rparr>"
| "analyze_keywords P env st rid i (k # ks) results_so_far =
     (case analyzeBrandMention P (reply_of env i) (item_keyword k) (brandName st) of
        Inl e \<Rightarrow>
          (let rest = analyze_keywords P env st rid (Suc i) ks results_so_far
           in rest\<lparr>events :=
                Analyze (item_keyword k) (brandName st) (competitor_names st) (openaiApiKey st)
                  # Toast (js ''Analysis Error'') # events rest\<rparr>)
      | Inr result \<Rightarrow>
          (let rest = analyze_keywords P env st rid (Suc i) ks (results_so_far @ [result]);
               new_row = api_response_of rid (item_keyword k) result
           in rest\<lparr>events :=
                Analyze (item_keyword k) (brandName st) (competitor_names st) (openaiApiKey st)
                  # Set_results (results_so_far @ [result])
                  # Insert_api_response new_row
                  # (if store_of env i = Insert_throws then [Toast (js ''Analysis Error'')] else [])
                  @ events rest,
                stored_rows :=
                  (if store_of env i = Insert_ok then [new_row] else []) @ stored_rows rest\<rparr>))"

definition handleGenerateReport :: "platform \<Rightarrow> environment \<Rightarrow> page_state \<Rightarrow> outcome" where
  "handleGenerateReport P env st =
     (case project st of
        None \<Rightarrow> \<lparr>events = [], results = [], stored_rows = []\<rparr>
      | Some p \<Rightarrow>
          if keyword_items st = [] then \<lparr>events = [], results = [], stored_rows = []\<rparr>
          else if trim (openaiApiKey st) = []
          then \<lparr>events = [Toast (js ''API Key Required'')], results = [], stored_rows = []\<rparr>
          else
            (case create_report env of
               Report_error \<Rightarrow>
                 \<lparr>events =
                    [Set_generating True, Set_results [],
                     Insert_report (project_id p) (project_user_id p),
                     Toast (js ''Error''), Set_generating False],
                  results = [], stored_rows = []\<rparr>
             | Report_created rid \<Rightarrow>
                 (let loop = analyze_keywords P env st rid 0 (keyword_items st) []
                  in loop\<lparr>events :=
                       [Set_generating True, Set_results [],
                        Insert_report (project_id p) (project_user_id p)]
                       @ events loop
                       @ [Update_report rid (length (keyword_items st)) (results loop),
                          Toast (js ''Report Generated''), Set_generating False]\<rparr>)))"

text \<open>
  The results of the successful calls among the rounds \<open>i, i + 1, ...\<close>, in order, and
  the rows of those among them whose insert succeeds.
\<close>

fun successes :: "platform \<Rightarrow> environment \<Rightarrow> page_state \<Rightarrow> nat \<Rightarrow> keyword_item list \<Rightarrow> BrandAnalysisResult list" where
  "successes P env st i [] = []"
| "successes P env st i (k # ks) =
     (case analyzeBrandMention P (reply_of env i) (item_keyword k) (brandName st) of
        Inl e \<Rightarrow> successes P env st (Suc i) ks
      | Inr result \<Rightarrow> result # successes P env st (Suc i) ks)"

fun stored_successes :: "platform \<Rightarrow> environment \<Rightarrow> page_state \<Rightarrow> nat \<Rightarrow> keyword_item list \<Rightarrow> BrandAnalysisResult list" where
  "stored_successes P env st i [] = []"
| "stored_successes P env st i (k # ks) =
     (case analyzeBrandMention P (reply_of env i) (item_keyword k) (brandName st) of
        Inl e \<Rightarrow> stored_successes P env st (Suc i) ks
      | Inr result \<Rightarrow>
          (if store_of env i = Insert_ok then [result] else [])
          @ stored_successes P env st (Suc i) ks)"

text \<open>
  A page state and environments for evaluating examples: a project with two keywords and
  an API key; the first request is answered with a text, the second fails. In
  \<open>example_environment\<close> the report is created and the inserts succeed; in
  \<open>failing_environment\<close> the insert of the report returns an error; in
  \<open>rejecting_environment\<close> the inserts into \<open>api_responses\<close> return an error.
\<close>

definition example_state :: page_state where
  "example_state =
     \<lparr>project = Some \<lparr>project_id = 10, project_user_id = 1, project_name = ''p'',
                       brand_name = ''acme'', project_competitors = []\<rparr>,
      keyword_items = [\<lparr>item_id = 1, item_keyword = js ''a''\<rparr>, \<lparr>item_id = 2, item_keyword = js ''b''\<rparr>],
      brandName = js ''acme'',
      competitor_names = [],
      openaiApiKey = js ''sk'',
      isGeneratingReport = False\<rparr>"

definition example_environment :: environment where
  "example_environment =
     \<lparr>create_report = Report_created 9,
      reply_of = (\<lambda>i. if i = 0 then Api_content (js ''Acme rank 2'') else Api_failure),
      store_of = (\<lambda>i. Insert_ok)\<rparr>"

definition failing_environment :: environment where
  "failing_environment = example_environment\<lparr>create_report := Report_error\<rparr>"

definition rejecting_environment :: environment where
  "rejecting_environment = example_environment\<lparr>store_of := (\<lambda>i. Insert_rejected)\<rparr>"

section \<open>Historical data (\<open>HistoricalTrackingService.getHistoricalData\<close>)\<close>

text \<open>
  A \<open>Date\<close> is its time value, in milliseconds since the epoch. The local time zone is the
  platform's: \<open>LocalTime\<close> maps a time value to local time and \<open>UTC\<close> maps local time back,
  as in ECMAScript. \<open>d.setDate(d.getDate() + n)\<close> moves the local time of \<open>d\<close> by \<open>n\<close>
  calendar days, keeping the time within the day, and converts back:
  \<open>UTC (LocalTime t + n * msPerDay)\<close>. The \<open>date\<close> string of a point,
  \<open>toISOString().split('T')[0]\<close>, is the UTC calendar date of its time value; the number of
  that day, counted from 1 January 1970, stands for the string.

  The clock is read once for \<open>startDate\<close> (\<open>now0\<close>) and once more for the \<open>endDate\<close> of each
  competitor (\<open>end_of i\<close>). The position, mentions and sentiment of a point are
  pseudo-random (\<open>Math.random\<close>, \<open>Math.sin\<close>, rounded and clamped); they are the
  environment's, given by \<open>noise\<close> for the competitor index and the time value of the point.
  The service receives the stored snapshots as an argument, as every reader of the table
  would; the code never reads them. The loop of \<open>generateSampleHistoricalData\<close> ends only
  when \<open>setDate\<close> carries \<open>current\<close> past \<open>endDate\<close>; a run that never ends has the value
  \<open>None\<close>.
\<close>

datatype timeRange = Range_7d | Range_30d | Range_90d | Range_1y

fun days :: "timeRange \<Rightarrow> int" where
  "days Range_7d = 7"
| "days Range_30d = 30"
| "days Range_90d = 90"
| "days Range_1y = 365"


















section \<open>Properties\<close>

subsection \<open>Plan limits\<close>

lemma get_plan_limits_role_eq:
  "get_plan_limits_role r = get_plan_limits (map_option role_label r)"
  by (cases r rule: option.exhaust [case_names None Some])
     (auto simp: get_plan_limits_role_def get_plan_limits_def elim: role_label.elims)

text \<open>
  C1. \<open>get_plan_limits\<close> returns projects 1, keywords 10, reports 5, competitors 0 for
  \<open>'trial'\<close>; projects 3, keywords 25, reports 15, competitors 1 for \<open>'basic'\<close>; projects
  10, keywords 50, reports 50, competitors -1 for \<open>'gold'\<close>; and the empty object for
  every other plan value (\<open>NULL\<close> included).
\<close>

theorem plan_limits_table:
  "get_plan_limits (Some ''trial'') =
     [''projects'' \<mapsto> 1, ''keywords'' \<mapsto> 10, ''reports'' \<mapsto> 5, ''competitors'' \<mapsto> 0] \<and>
   get_plan_limits (Some ''basic'') =
     [''projects'' \<mapsto> 3, ''keywords'' \<mapsto> 25, ''reports'' \<mapsto> 15, ''competitors'' \<mapsto> 1] \<and>
   get_plan_limits (Some ''gold'') =
     [''projects'' \<mapsto> 10, ''keywords'' \<mapsto> 50, ''reports'' \<mapsto> 50, ''competitors'' \<mapsto> - 1] \<and>
   (plan_type \<notin> {Some ''trial'', Some ''basic'', Some ''gold''} \<longrightarrow>
      get_plan_limits plan_type = Map.empty)"
  by (simp add: get_plan_limits_def trial_limits_def basic_limits_def gold_limits_def)

theorem plan_limits_table_witness:
  "Some ''enterprise'' \<notin> {Some ''trial'', Some ''basic'', Some ''gold''} \<and>
   get_plan_limits (Some ''enterprise'') = Map.empty \<and>
   get_plan_limits (Some ''gold'') ''competitors'' = Some (- 1)"
  using plan_limits_table [of "Some ''enterprise''"] by simp

subsection \<open>Input sanitisation\<close>

lemma sanitizeInput_clean:
  "of_char CHR ''<'' \<notin> set (sanitizeInput s) \<and> of_char CHR ''>'' \<notin> set (sanitizeInput s)"
  by (simp add: sanitizeInput_def)

text \<open>
  C10. The value of \<open>sanitizeInput\<close> contains neither \<open><\<close> nor \<open>>\<close>, and every element
  of the value of \<open>sanitizeArray\<close> is a non-empty string containing neither.
\<close>

theorem sanitize_no_angle_brackets:
  "of_char CHR ''<'' \<notin> set (sanitizeInput s) \<and> of_char CHR ''>'' \<notin> set (sanitizeInput s) \<and>
   (\<forall>item \<in> set (sanitizeArray array).
      item \<noteq> [] \<and> of_char CHR ''<'' \<notin> set item \<and> of_char CHR ''>'' \<notin> set item)"
proof -
  have "item \<noteq> [] \<and> of_char CHR ''<'' \<notin> set item \<and> of_char CHR ''>'' \<notin> set item"
    if "item \<in> set (sanitizeArray array)" for item
  proof -
    from that obtain x where "item = sanitizeInput x" and "length item > 0"
      by (auto simp: sanitizeArray_def)
    then show ?thesis using sanitizeInput_clean [of x] by auto
  qed
  then show ?thesis using sanitizeInput_clean [of s] by blast
qed

theorem sanitize_no_angle_brackets_witness:
  "sanitizeInput (js '' <b>hi</b> '') = js ''bhi/b'' \<and>
   sanitizeArray [js '' <b>hi</b> '', js '' <> ''] = [js ''bhi/b''] \<and>
   of_char CHR ''<'' \<notin> set (js ''bhi/b'') \<and> of_char CHR ''>'' \<notin> set (js ''bhi/b'') \<and>
   js ''bhi/b'' \<noteq> []"
  using sanitize_no_angle_brackets [of "js '' <b>hi</b> ''" "[js '' <b>hi</b> '', js '' <> '']"]
  by (simp add: sanitizeArray_def sanitizeInput_def trim_def js_def isWhiteSpace_def)

subsection \<open>Rate limiter\<close>










subsection \<open>Row-level security\<close>

lemma find_unique:
  "distinct (map f xs) \<Longrightarrow> x \<in> set xs \<Longrightarrow> f x = v \<Longrightarrow> find (\<lambda>y. f y = v) xs = Some x"
  by (induction xs) (auto simp: image_iff)

lemma rls_permits_cases:
  "rls_permits db auth_uid cmd r \<Longrightarrow>
     (case r of Project_row p \<Rightarrow> projects_policy auth_uid p
      | Keyword_row k \<Rightarrow> keywords_policy db auth_uid k
      | Report_row x \<Rightarrow> reports_policy auth_uid x \<and> cmd \<noteq> DELETE
      | Api_response_row a \<Rightarrow> api_responses_policy db auth_uid a \<and> (cmd = SELECT \<or> cmd = INSERT))"
  by (cases r; cases cmd)
     (simp_all add: rls_permits_def policies_def on_projects_def on_keywords_def
        on_reports_def on_api_responses_def)

lemma rls_permits_owner:
  assumes "primary_keys db" and "rls_permits db (Some u) cmd r"
  shows "owner db r = Some u"
proof (cases r)
  case (Project_row p)
  then show ?thesis using rls_permits_cases [OF assms(2)] by (simp add: projects_policy_def)
next
  case (Keyword_row k)
  then have "keywords_policy db (Some u) k" using rls_permits_cases [OF assms(2)] by simp
  then obtain p where "p \<in> set (db_projects db)" "project_id p = keyword_project_id k"
      "project_user_id p = u"
    by (auto simp: keywords_policy_def list_ex_iff)
  moreover have "distinct (map project_id (db_projects db))"
    using assms(1) by (simp add: primary_keys_def)
  ultimately have "find (\<lambda>p. project_id p = keyword_project_id k) (db_projects db) = Some p"
    by (intro find_unique)
  then show ?thesis using Keyword_row \<open>project_user_id p = u\<close> by simp
next
  case (Report_row x)
  then show ?thesis using rls_permits_cases [OF assms(2)] by (simp add: reports_policy_def)
next
  case (Api_response_row a)
  then have "api_responses_policy db (Some u) a" using rls_permits_cases [OF assms(2)] by simp
  then obtain x where "x \<in> set (db_reports db)" "report_id x = api_response_report_id a"
      "report_user_id x = u"
    by (auto simp: api_responses_policy_def list_ex_iff)
  moreover have "distinct (map report_id (db_reports db))"
    using assms(1) by (simp add: primary_keys_def)
  ultimately have "find (\<lambda>r. report_id r = api_response_report_id a) (db_reports db) = Some x"
    by (intro find_unique)
  then show ?thesis using Api_response_row \<open>report_user_id x = u\<close> by simp
qed

text \<open>
  What holds of the policies. For the tables projects, keywords, reports and
  api_responses and an authenticated user \<open>u\<close>: the policies let a select, insert, update
  or delete pass only on a row that \<open>u\<close> owns, directly (projects, reports) or through the
  owning project (keywords) or report (api_responses); an update needs both the old and
  the new row to be owned by \<open>u\<close>.
\<close>

lemma rls_only_owner:
  assumes "primary_keys db"
  shows "(rls_permits db (Some u) cmd r \<longrightarrow> owner db r = Some u) \<and>
         (rls_permits_update db (Some u) old new \<longrightarrow> owner db old = Some u \<and> owner db new = Some u) \<and>
         (owner db r = Some v \<and> v \<noteq> u \<longrightarrow> \<not> rls_permits db (Some u) cmd r)"
  using rls_permits_owner [OF assms] by (auto simp: rls_permits_update_def)

lemma keyword_insert_needs_own_project:
  "\<not> rls_permits tenant_db (Some 2) INSERT
       (Keyword_row \<lparr>keyword_id = 5, keyword_project_id = 10, keyword_text = ''k'', priority = 1\<rparr>) \<and>
   rls_permits tenant_db (Some 1) INSERT
       (Keyword_row \<lparr>keyword_id = 5, keyword_project_id = 10, keyword_text = ''k'', priority = 1\<rparr>)"
  by (simp add: tenant_db_def rls_permits_def policies_def on_keywords_def keywords_policy_def
        projects_policy_def)

text \<open>
  C2. The conclusion of the claim, that no user can modify a row of another user, fails
  on the migration. The \<open>INSERT\<close> policy of \<open>reports\<close> looks at \<open>user_id\<close> only, not at the
  project (the policy of \<open>keywords\<close> does look at the project), so user 2 may insert a
  report on project 10 of user 1. The report belongs to user 2. When user 1 deletes
  project 10, as the policies allow, the cascade deletes the report of user 2.
\<close>

theorem cross_user_cascade_delete:
  "insert_report tenant_db (Some 2) foreign_report
     = Inr (tenant_db\<lparr>db_reports := [foreign_report]\<rparr>) \<and>
   primary_keys (tenant_db\<lparr>db_reports := [foreign_report]\<rparr>) \<and>
   owner (tenant_db\<lparr>db_reports := [foreign_report]\<rparr>) (Report_row foreign_report) = Some 2 \<and>
   \<not> rls_permits (tenant_db\<lparr>db_reports := [foreign_report]\<rparr>) (Some 1) DELETE (Report_row foreign_report) \<and>
   rls_permits (tenant_db\<lparr>db_reports := [foreign_report]\<rparr>) (Some 1) DELETE
     (Project_row \<lparr>project_id = 10, project_user_id = 1, project_name = ''p'',
                    brand_name = ''b'', project_competitors = []\<rparr>) \<and>
   db_reports (delete_project (tenant_db\<lparr>db_reports := [foreign_report]\<rparr>) (Some 1) 10) = []"
  by (simp add: insert_report_def delete_project_def tenant_db_def foreign_report_def
        primary_keys_def rls_permits_def policies_def on_reports_def on_projects_def
        reports_policy_def projects_policy_def Let_def)

theorem cross_user_cascade_delete_witness:
  "\<exists>db r. primary_keys db \<and> r \<in> set (db_reports db) \<and> owner db (Report_row r) = Some 2 \<and>
     \<not> rls_permits db (Some 1) DELETE (Report_row r) \<and>
     r \<notin> set (db_reports (delete_project db (Some 1) 10))"
  using cross_user_cascade_delete
  by (intro exI [of _ "tenant_db\<lparr>db_reports := [foreign_report]\<rparr>"] exI [of _ foreign_report]) simp

subsection \<open>Profile creation at signup\<close>

lemma first_migration_runs:
  "run_transaction C now first_migration empty_db =
     Inr \<lparr>enum_types = [(''app_role'', [''admin'', ''trial'', ''basic'', ''gold''])],
          profiles_columns = Some initial_columns,
          profiles_rows = []\<rparr>"
  by (simp add: first_migration_def empty_db_def has_type_def initial_columns_def)

lemma first_migration_result:
  "migrate C t0 first_migration empty_db =
     \<lparr>enum_types = [(''app_role'', [''admin'', ''trial'', ''basic'', ''gold''])],
      profiles_columns = Some initial_columns,
      profiles_rows = []\<rparr>"
  by (simp add: migrate_def first_migration_runs)

lemma trial_migration_on_empty:
  "run_transaction C now trial_migration empty_db = Inl (Undefined_table ''profiles'')"
  by (simp add: trial_migration_def empty_db_def)

lemma trial_migration_fails:
  "run_transaction C t1 trial_migration ((migrate C t0 first_migration empty_db)\<lparr>profiles_rows := rows\<rparr>) =
     Inl (Undefined_column ''plan'')"
  by (simp add: first_migration_result initial_columns_def trial_migration_def has_type_def has_column_def)

text \<open>
  C7. No run of the migration scripts leaves a table \<open>profiles\<close> on which a signup
  creates the row of the claim. \<open>DROP TYPE app_role CASCADE\<close> of the trial migration drops
  the column \<open>plan\<close> with the type, so the next statement, \<open>ALTER COLUMN plan TYPE text\<close>,
  fails on the missing column, whatever rows the table holds. Run as one transaction, the
  script is rolled back and \<open>trial_ends_at\<close> is never added: the row created at signup has
  plan \<open>'trial'\<close> and the limits 1, 10 and 5, but no \<open>trial_ends_at\<close>. Run statement by
  statement, \<open>trial_ends_at\<close> stays and \<open>plan\<close> is gone: the row created at signup has the
  limits and a \<open>trial_ends_at\<close> 14 days after its creation time, but no \<open>plan\<close>.
\<close>

theorem signup_after_trial_migration:
  "run_transaction C t1 trial_migration ((migrate C t0 first_migration empty_db)\<lparr>profiles_rows := rows\<rparr>) =
     Inl (Undefined_column ''plan'') \<and>
   map_sum id profiles_rows
     (handle_new_user t2 \<lparr>auth_user_id = u, auth_user_email = Some e, raw_user_meta_data = m\<rparr>
        (migrate C t1 trial_migration (migrate C t0 first_migration empty_db))) =
     Inr [[(''id'', Uuid_value u), (''email'', Text_value e),
           (''full_name'', text_or_null (COALESCE (m ''full_name'') (m ''name''))),
           (''company'', Null_value), (''plan'', Enum_value ''app_role'' ''trial''),
           (''plan_expires_at'', Null_value), (''projects_limit'', Int_value 1),
           (''keywords_limit'', Int_value 10), (''reports_limit'', Int_value 5),
           (''created_at'', Time_value t2), (''updated_at'', Time_value t2)]] \<and>
   map_sum id profiles_rows
     (handle_new_user t2 \<lparr>auth_user_id = u, auth_user_email = Some e, raw_user_meta_data = m\<rparr>
        (run_each C now 0 trial_migration (migrate C t0 first_migration empty_db))) =
     Inr [[(''id'', Uuid_value u), (''email'', Text_value e),
           (''full_name'', text_or_null (COALESCE (m ''full_name'') (m ''name''))),
           (''company'', Null_value),
           (''plan_expires_at'', Null_value), (''projects_limit'', Int_value 1),
           (''keywords_limit'', Int_value 10), (''reports_limit'', Int_value 5),
           (''created_at'', Time_value t2), (''updated_at'', Time_value t2),
           (''trial_ends_at'', Time_value (t2 + 1209600000000))]]"
proof -
  have a: "run_transaction C t1 trial_migration ((migrate C t0 first_migration empty_db)\<lparr>profiles_rows := rows\<rparr>) =
     Inl (Undefined_column ''plan'')"
    by (rule trial_migration_fails)
  have "migrate C t1 trial_migration (migrate C t0 first_migration empty_db) =
          migrate C t0 first_migration empty_db"
    using trial_migration_fails [where rows = "[]" and C = C and ?t1.0 = t1 and ?t0.0 = t0]
    by (simp add: migrate_def [of C t1] first_migration_result)
  then have b: "map_sum id profiles_rows
     (handle_new_user t2 \<lparr>auth_user_id = u, auth_user_email = Some e, raw_user_meta_data = m\<rparr>
        (migrate C t1 trial_migration (migrate C t0 first_migration empty_db))) =
     Inr [[(''id'', Uuid_value u), (''email'', Text_value e),
           (''full_name'', text_or_null (COALESCE (m ''full_name'') (m ''name''))),
           (''company'', Null_value), (''plan'', Enum_value ''app_role'' ''trial''),
           (''plan_expires_at'', Null_value), (''projects_limit'', Int_value 1),
           (''keywords_limit'', Int_value 10), (''reports_limit'', Int_value 5),
           (''created_at'', Time_value t2), (''updated_at'', Time_value t2)]]"
    by (simp add: first_migration_result initial_columns_def handle_new_user_def insert_profile_def
          has_column_def text_or_null_def Let_def)
  have c: "map_sum id profiles_rows
     (handle_new_user t2 \<lparr>auth_user_id = u, auth_user_email = Some e, raw_user_meta_data = m\<rparr>
        (run_each C now 0 trial_migration (migrate C t0 first_migration empty_db))) =
     Inr [[(''id'', Uuid_value u), (''email'', Text_value e),
           (''full_name'', text_or_null (COALESCE (m ''full_name'') (m ''name''))),
           (''company'', Null_value),
           (''plan_expires_at'', Null_value), (''projects_limit'', Int_value 1),
           (''keywords_limit'', Int_value 10), (''reports_limit'', Int_value 5),
           (''created_at'', Time_value t2), (''updated_at'', Time_value t2),
           (''trial_ends_at'', Time_value (t2 + 1209600000000))]]"
    by (simp add: first_migration_result initial_columns_def trial_migration_def has_type_def
          handle_new_user_def insert_profile_def has_column_def text_or_null_def Let_def plus_days_def)
  show ?thesis using a b c by blast
qed

theorem signup_after_trial_migration_witness:
  "run_transaction \<lparr>cast_value = (\<lambda>old new v. Inr v), cast_default = (\<lambda>old new d. Inr d)\<rparr> 1000
     trial_migration
     (migrate \<lparr>cast_value = (\<lambda>old new v. Inr v), cast_default = (\<lambda>old new d. Inr d)\<rparr> 0
        first_migration empty_db) =
     Inl (Undefined_column ''plan'') \<and>
   map_sum id profiles_rows
     (handle_new_user 5000
        \<lparr>auth_user_id = 7, auth_user_email = Some ''a@b.c'', raw_user_meta_data = [''name'' \<mapsto> ''Ann'']\<rparr>
        (migrate \<lparr>cast_value = (\<lambda>old new v. Inr v), cast_default = (\<lambda>old new d. Inr d)\<rparr> 1000
           trial_migration
           (migrate \<lparr>cast_value = (\<lambda>old new v. Inr v), cast_default = (\<lambda>old new d. Inr d)\<rparr> 0
              first_migration empty_db))) =
     Inr [[(''id'', Uuid_value 7), (''email'', Text_value ''a@b.c''), (''full_name'', Text_value ''Ann''),
           (''company'', Null_value), (''plan'', Enum_value ''app_role'' ''trial''),
           (''plan_expires_at'', Null_value), (''projects_limit'', Int_value 1),
           (''keywords_limit'', Int_value 10), (''reports_limit'', Int_value 5),
           (''created_at'', Time_value 5000), (''updated_at'', Time_value 5000)]] \<and>
   map_sum id profiles_rows
     (handle_new_user 5000
        \<lparr>auth_user_id = 7, auth_user_email = Some ''a@b.c'', raw_user_meta_data = [''name'' \<mapsto> ''Ann'']\<rparr>
        (run_each \<lparr>cast_value = (\<lambda>old new v. Inr v), cast_default = (\<lambda>old new d. Inr d)\<rparr>
           (\<lambda>i. 1000 + int i) 0 trial_migration
           (migrate \<lparr>cast_value = (\<lambda>old new v. Inr v), cast_default = (\<lambda>old new d. Inr d)\<rparr> 0
              first_migration empty_db))) =
     Inr [[(''id'', Uuid_value 7), (''email'', Text_value ''a@b.c''), (''full_name'', Text_value ''Ann''),
           (''company'', Null_value),
           (''plan_expires_at'', Null_value), (''projects_limit'', Int_value 1),
           (''keywords_limit'', Int_value 10), (''reports_limit'', Int_value 5),
           (''created_at'', Time_value 5000), (''updated_at'', Time_value 5000),
           (''trial_ends_at'', Time_value 1209600005000)]]"
  using signup_after_trial_migration
    [where C = "\<lparr>cast_value = (\<lambda>old new v. Inr v), cast_default = (\<lambda>old new d. Inr d)\<rparr>"
       and ?t1.0 = 1000 and ?t0.0 = 0 and rows = "[]" and ?t2.0 = 5000 and u = 7 and e = "''a@b.c''"
       and m = "[''name'' \<mapsto> ''Ann'']" and now = "\<lambda>i. 1000 + int i"]
  by (simp add: text_or_null_def COALESCE_def first_migration_result)

subsection \<open>Plan limits in the client\<close>

lemma checkLimitReached_iff:
  "checkLimitReached limits usage type \<longleftrightarrow>
     (\<exists>limit. limit_at limits type = Some limit \<and> limit \<noteq> - 1 \<and> usage_at usage type \<ge> limit)"
  by (auto simp: checkLimitReached_def split: option.splits)

lemma checkLimitReached_unlimited:
  "limit_at limits type = Some (- 1) \<Longrightarrow> \<not> checkLimitReached limits usage type"
  by (simp add: checkLimitReached_def)

lemma getUsagePercentage_unlimited: "getUsagePercentage usage (- 1) = Num 0"
  by (simp add: getUsagePercentage_def)

lemma getUsagePercentage_range:
  "0 \<le> usage \<Longrightarrow> 0 < limit \<Longrightarrow>
     \<exists>q. getUsagePercentage usage limit = Num q \<and> 0 \<le> q \<and> q \<le> 100"
  by (auto simp: getUsagePercentage_def)

text \<open>
  C9. \<open>getUsagePercentage\<close> does not always return a value in \<open>[0, 100]\<close>: with usage 0
  and limit 0 (the trial plan's competitors limit, with no competitor used) the quotient
  is \<open>0 / 0\<close> and the result is \<open>NaN\<close>.
\<close>

theorem getUsagePercentage_zero_limit:
  "getUsagePercentage 0 0 = NaN \<and>
   limit_competitors (fetchPlanLimits (Some ''trial'') (\<lambda>p. Rpc_data (get_plan_limits (Some p))) initial_limits)
     = Some 0"
  by (simp add: getUsagePercentage_def fetchPlanLimits_def get_plan_limits_def trial_limits_def)

subsection \<open>The number value of a run of digits\<close>

lemma excess_bits_small: "n < 2 ^ 53 \<Longrightarrow> excess_bits n = 0"
  by (simp add: excess_bits.simps)

lemma double_of_nat_exact: "n \<le> 2 ^ 53 \<Longrightarrow> double_of_nat n = Num (of_nat n)"
proof (cases "n < 2 ^ 53")
  case True
  then show ?thesis by (simp add: double_of_nat_def excess_bits_small)
next
  case False
  assume "n \<le> 2 ^ 53"
  with False have n: "n = 2 ^ 53" by simp
  have "excess_bits (2 ^ 53) = Suc 0"
    by (subst excess_bits.simps) (simp add: excess_bits_small)
  then show ?thesis unfolding n by (simp add: double_of_nat_def)
qed

lemma leading_bits_less: "n div 2 ^ excess_bits n < 2 ^ 53"
proof (induction n rule: excess_bits.induct)
  case (1 n)
  show ?case
  proof (cases "n < 2 ^ 53")
    case True
    then show ?thesis by (simp add: excess_bits_small)
  next
    case False
    then have e: "excess_bits n = Suc (excess_bits (n div 2))"
      by (simp add: excess_bits.simps [of n])
    have "n div 2 ^ Suc (excess_bits (n div 2)) = (n div 2) div 2 ^ excess_bits (n div 2)"
      by (simp add: div_mult2_eq)
    then show ?thesis using 1 False e by simp
  qed
qed

lemma leading_bits_ge: "2 ^ 53 \<le> n \<Longrightarrow> 2 ^ 52 \<le> n div 2 ^ excess_bits n"
proof (induction n rule: excess_bits.induct)
  case (1 n)
  then have ge: "\<not> n < 2 ^ 53" by simp
  then have e: "excess_bits n = Suc (excess_bits (n div 2))"
    by (simp add: excess_bits.simps [of n])
  have d: "n div 2 ^ Suc (excess_bits (n div 2)) = (n div 2) div 2 ^ excess_bits (n div 2)"
    by (simp add: div_mult2_eq)
  show ?case
  proof (cases "n div 2 < 2 ^ 53")
    case True
    have "2 ^ 52 \<le> n div 2" using "1.prems" by simp
    then show ?thesis using True e d by (simp add: excess_bits_small)
  next
    case False
    then have "2 ^ 52 \<le> (n div 2) div 2 ^ excess_bits (n div 2)"
      using "1.IH" ge by simp
    then show ?thesis using e d by simp
  qed
qed

lemma double_of_nat_overflow:
  assumes "2 ^ 1024 \<le> n"
  shows "double_of_nat n = PosInfinity"
proof -
  define e where "e = excess_bits n"
  define q where "q = n div 2 ^ e"
  have q1: "q < 2 ^ 53" unfolding q_def e_def by (rule leading_bits_less)
  have "(2::nat) ^ 53 \<le> 2 ^ 1024" by simp
  then have "2 ^ 53 \<le> n" using assms by linarith
  then have q2: "2 ^ 52 \<le> q" unfolding q_def e_def by (rule leading_bits_ge)
  have "n < (q + 1) * 2 ^ e"
    unfolding q_def using div_less_iff_less_mult [of "2 ^ e" n "n div 2 ^ e + 1"]
    by (metis add.commute dividend_less_div_times mult.commute mult_Suc plus_1_eq_Suc zero_less_numeral zero_less_power)
  moreover have "(q + 1) * 2 ^ e \<le> 2 ^ 53 * 2 ^ e" using q1 by simp
  ultimately have "2 ^ 1024 < (2::nat) ^ 53 * 2 ^ e" using assms by linarith
  then have "(2::nat) ^ 1024 < 2 ^ (53 + e)" by (simp add: power_add)
  then have "1024 < 53 + e"
    by (rule power_less_imp_less_exp [of 2, rotated]) simp
  then have "972 \<le> e" by simp
  then have "(2::nat) ^ 972 \<le> 2 ^ e" by (rule power_increasing) simp
  then have "(2::nat) ^ 52 * 2 ^ 972 \<le> q * 2 ^ e" using q2 by (rule_tac mult_le_mono)
  moreover have "(2::nat) ^ 52 * 2 ^ 972 = 2 ^ 1024" by (simp add: power_add [symmetric])
  ultimately have big: "2 ^ 1024 \<le> q * 2 ^ e" by simp
  have "2 ^ 1024 \<le> (if 2 ^ e < 2 * (n mod 2 ^ e) \<or> (2 * (n mod 2 ^ e) = 2 ^ e \<and> odd q) then q + 1 else q) * 2 ^ e"
    using big by (auto simp: algebra_simps intro: trans_le_add1)
  then show ?thesis
    unfolding double_of_nat_def Let_def e_def [symmetric] q_def [symmetric] by simp
qed

lemma double_of_nat_nearest:
  assumes "double_of_nat n = Num v"
  shows "\<exists>m. v = of_nat (m * 2 ^ excess_bits n) \<and>
           2 * \<bar>int (m * 2 ^ excess_bits n) - int n\<bar> \<le> 2 ^ excess_bits n"
proof -
  define e where "e = excess_bits n"
  define E where "E = (2::nat) ^ e"
  define q where "q = n div E"
  define r where "r = n mod E"
  define P where "P = q * E"
  have n: "n = P + r" unfolding P_def q_def r_def by (rule div_mult_mod_eq [symmetric])
  have r: "r < E" unfolding r_def E_def by simp
  have E: "(2::int) ^ e = int E" unfolding E_def by simp
  have up: "(q + 1) * E = P + E" unfolding P_def by simp
  note d = assms [unfolded double_of_nat_def Let_def, folded e_def, folded E_def,
      folded q_def r_def]
  show ?thesis
  proof (cases "E < 2 * r \<or> (2 * r = E \<and> odd q)")
    case True
    then have "v = of_nat ((q + 1) * E)" using d by (simp split: if_splits)
    moreover have "E \<le> 2 * r" using True by auto
    then have "2 * \<bar>int ((q + 1) * E) - int n\<bar> \<le> int E"
      using r unfolding n up by simp
    ultimately show ?thesis unfolding e_def [symmetric] E E_def [symmetric] by blast
  next
    case False
    then have "v = of_nat (q * E)" using d by (simp split: if_splits)
    moreover have "2 * r \<le> E" using False by auto
    then have "2 * \<bar>int (q * E) - int n\<bar> \<le> int E"
      using r unfolding n P_def [symmetric] by simp
    ultimately show ?thesis unfolding e_def [symmetric] E E_def [symmetric] by blast
  qed
qed

lemma double_of_nat_rounds: "double_of_nat 9007199254740993 = Num 9007199254740992"
proof -
  have "excess_bits 9007199254740993 = Suc 0"
    by (simp add: excess_bits.simps [of 9007199254740993] excess_bits_small)
  then show ?thesis by (simp add: double_of_nat_def)
qed

lemma decimal_snoc: "decimal (ds @ [d]) = 10 * decimal ds + (d - 48)"
  by (simp add: decimal_def)

lemma decimal_sum:
  "decimal ds = (\<Sum>i<length ds. (ds ! i - 48) * 10 ^ (length ds - Suc i))"
proof (induction ds rule: rev_induct)
  case Nil
  then show ?case by (simp add: decimal_def)
next
  case (snoc d ds)
  have "(\<Sum>i<length ds. ((ds @ [d]) ! i - 48) * 10 ^ (length (ds @ [d]) - Suc i)) =
        (\<Sum>i<length ds. 10 * ((ds ! i - 48) * 10 ^ (length ds - Suc i)))"
  proof (rule sum.cong)
    fix i assume "i \<in> {..<length ds}"
    then have i: "i < length ds" by simp
    then have "length (ds @ [d]) - Suc i = Suc (length ds - Suc i)" by simp
    then show "((ds @ [d]) ! i - 48) * 10 ^ (length (ds @ [d]) - Suc i) =
        10 * ((ds ! i - 48) * 10 ^ (length ds - Suc i))"
      using i by (simp add: nth_append)
  qed simp
  then have "(\<Sum>i<length (ds @ [d]). ((ds @ [d]) ! i - 48) * 10 ^ (length (ds @ [d]) - Suc i)) =
      10 * (\<Sum>i<length ds. (ds ! i - 48) * 10 ^ (length ds - Suc i)) + (d - 48)"
    by (simp add: sum_distrib_left)
  then show ?case using snoc.IH by (simp add: decimal_snoc)
qed

lemma double_of_nat_finite:
  assumes "n < 2 ^ 1024 - 2 ^ 970"
  shows "\<exists>v. double_of_nat n = Num v"
proof (cases "n < 2 ^ 53")
  case True
  then show ?thesis by (simp add: double_of_nat_exact)
next
  case False
  define e where "e = excess_bits n"
  define q where "q = n div 2 ^ e"
  define r where "r = n mod 2 ^ e"
  define m where "m = (if 2 ^ e < 2 * r \<or> (2 * r = 2 ^ e \<and> odd q) then q + 1 else q)"
  have n: "n = q * 2 ^ e + r" unfolding q_def r_def by (rule div_mult_mod_eq [symmetric])
  have q1: "q < 2 ^ 53" unfolding q_def e_def by (rule leading_bits_less)
  have q2: "2 ^ 52 \<le> q" unfolding q_def e_def using False by (intro leading_bits_ge) simp
  have m: "m \<le> q + 1" unfolding m_def by simp
  have "(2::nat) ^ 52 * 2 ^ e \<le> q * 2 ^ e" using q2 by simp
  also have "\<dots> \<le> n" unfolding n by simp
  also have "n < 2 ^ 1024" using assms by simp
  finally have "(2::nat) ^ (52 + e) < 2 ^ 1024" by (simp add: power_add)
  then have "52 + e < 1024"
    by (rule power_less_imp_less_exp [of 2, rotated]) simp
  then have e: "e \<le> 971" by simp
  have fin: "m * 2 ^ e < 2 ^ 1024"
  proof (cases "e = 971 \<and> q + 1 = 2 ^ 53")
    case True
    then have e971: "e = 971" and q: "q = 2 ^ 53 - 1" by simp_all
    have "r < 2 ^ 970" using assms unfolding n e971 q by simp
    then have "m = q" unfolding m_def e971 by simp
    then show ?thesis unfolding e971 q by simp
  next
    case False
    then consider "e \<le> 970" | "q + 1 < 2 ^ 53" using e q1 by linarith
    then show ?thesis
    proof cases
      case 1
      then have "(2::nat) ^ e \<le> 2 ^ 970" by (intro power_increasing) simp_all
      moreover have "m \<le> 2 ^ 53" using m q1 by simp
      ultimately have "m * 2 ^ e \<le> 2 ^ 53 * 2 ^ 970" by (rule mult_le_mono [rotated])
      then show ?thesis by simp
    next
      case 2
      have "(2::nat) ^ e \<le> 2 ^ 971" using e by (intro power_increasing) simp_all
      moreover have "m \<le> 2 ^ 53 - 1" using m 2 by simp
      ultimately have "m * 2 ^ e \<le> (2 ^ 53 - 1) * 2 ^ 971" by (rule mult_le_mono [rotated])
      then show ?thesis by simp
    qed
  qed
  show ?thesis
    unfolding double_of_nat_def Let_def e_def [symmetric] q_def [symmetric] r_def [symmetric]
      m_def [symmetric]
    using fin by simp
qed

lemma double_of_nat_rounds_up: "double_of_nat 9007199254740995 = Num 9007199254740996"
proof -
  have "excess_bits 9007199254740995 = Suc 0"
    by (simp add: excess_bits.simps [of 9007199254740995] excess_bits_small)
  then show ?thesis by (simp add: double_of_nat_def)
qed

lemma double_of_nat_overflow_below:
  assumes lo: "2 ^ 1024 - 2 ^ 970 \<le> n" and hi: "n < 2 ^ 1024"
  shows "double_of_nat n = PosInfinity"
proof -
  define e where "e = excess_bits n"
  define q where "q = n div 2 ^ e"
  define r where "r = n mod 2 ^ e"
  have n: "n = q * 2 ^ e + r" unfolding q_def r_def by (rule div_mult_mod_eq [symmetric])
  have r: "r < 2 ^ e" unfolding r_def by simp
  have q1: "q < 2 ^ 53" unfolding q_def e_def by (rule leading_bits_less)
  have "(2::nat) ^ 53 \<le> 2 ^ 1024 - 2 ^ 970" by simp
  then have "2 ^ 53 \<le> n" using lo by linarith
  then have q2: "2 ^ 52 \<le> q" unfolding q_def e_def by (rule leading_bits_ge)
  have "(2::nat) ^ 52 * 2 ^ e \<le> q * 2 ^ e" using q2 by simp
  also have "\<dots> \<le> n" unfolding n by simp
  finally have "(2::nat) ^ (52 + e) < 2 ^ 1024" using hi by (simp add: power_add)
  then have "52 + e < 1024"
    by (rule power_less_imp_less_exp [of 2, rotated]) simp
  then have e1: "e \<le> 971" by simp
  have e2: "971 \<le> e"
  proof (rule ccontr)
    assume "\<not> 971 \<le> e"
    then have "e \<le> 970" by simp
    then have "(2::nat) ^ e \<le> 2 ^ 970" by (intro power_increasing) simp_all
    moreover have "q + 1 \<le> 2 ^ 53" using q1 by simp
    ultimately have "(q + 1) * 2 ^ e \<le> 2 ^ 53 * 2 ^ 970" by (rule mult_le_mono [rotated])
    moreover have "n < (q + 1) * 2 ^ e" using r unfolding n by simp
    ultimately show False using lo by simp
  qed
  have e: "e = 971" using e1 e2 by simp
  have q: "q = 2 ^ 53 - 1"
  proof (rule ccontr)
    assume "q \<noteq> 2 ^ 53 - 1"
    then have "q + 1 \<le> 2 ^ 53 - 1" using q1 by simp
    then have "(q + 1) * 2 ^ 971 \<le> (2 ^ 53 - 1) * 2 ^ 971" by (rule mult_le_mono1)
    moreover have "n < (q + 1) * 2 ^ 971" using r unfolding n e by simp
    ultimately show False using lo by simp
  qed
  have r2: "2 ^ 970 \<le> r" using lo unfolding n e q by simp
  have "odd q" unfolding q by simp
  then have "2 ^ e < 2 * r \<or> (2 * r = 2 ^ e \<and> odd q)" using r2 unfolding e by auto
  then show ?thesis
    unfolding double_of_nat_def Let_def e_def [symmetric] q_def [symmetric] r_def [symmetric]
    by (simp add: e q)
qed

lemma double_of_nat_Infinity_iff: "double_of_nat n = PosInfinity \<longleftrightarrow> 2 ^ 1024 - 2 ^ 970 \<le> n"
proof
  assume "double_of_nat n = PosInfinity"
  then show "2 ^ 1024 - 2 ^ 970 \<le> n"
    using double_of_nat_finite [of n] by (cases "n < 2 ^ 1024 - 2 ^ 970") auto
next
  assume "2 ^ 1024 - 2 ^ 970 \<le> n"
  then show "double_of_nat n = PosInfinity"
    using double_of_nat_overflow [of n] double_of_nat_overflow_below [of n]
    by (cases "n < 2 ^ 1024") auto
qed

lemma excess_bits_bounds:
  assumes "2 ^ 53 \<le> n"
  shows "2 ^ (52 + excess_bits n) \<le> n \<and> n < 2 ^ (53 + excess_bits n)"
proof -
  define e where "e = excess_bits n"
  define q where "q = n div 2 ^ e"
  define r where "r = n mod 2 ^ e"
  have n: "n = q * 2 ^ e + r" unfolding q_def r_def by (rule div_mult_mod_eq [symmetric])
  have r: "r < 2 ^ e" unfolding r_def by simp
  have q1: "q < 2 ^ 53" unfolding q_def e_def by (rule leading_bits_less)
  have q2: "2 ^ 52 \<le> q" unfolding q_def e_def using assms by (rule leading_bits_ge)
  have "(2::nat) ^ 52 * 2 ^ e \<le> q * 2 ^ e" using q2 by simp
  also have "\<dots> \<le> n" unfolding n by simp
  finally have lo: "2 ^ (52 + e) \<le> n" by (simp add: power_add)
  have "n < (q + 1) * 2 ^ e" using r unfolding n by simp
  also have "\<dots> \<le> 2 ^ 53 * 2 ^ e" using q1 by simp
  finally have "n < 2 ^ (53 + e)" by (simp add: power_add)
  then show ?thesis using lo unfolding e_def by simp
qed

subsection \<open>Brand analysis\<close>

text \<open>A search returns the match at the leftmost start position that has one.\<close>

lemma search_None_iff:
  "search pat s = None \<longleftrightarrow> (\<forall>pre suf. s = pre @ suf \<longrightarrow> pat suf = None)"
proof (induction s)
  case Nil
  then show ?case by simp
next
  case (Cons c cs)
  show ?case
  proof
    assume a: "search pat (c # cs) = None"
    then have h: "pat (c # cs) = None" and t: "search pat cs = None"
      by (auto split: option.splits)
    show "\<forall>pre suf. c # cs = pre @ suf \<longrightarrow> pat suf = None"
    proof (intro allI impI)
      fix pre suf assume e: "c # cs = pre @ suf"
      show "pat suf = None"
      proof (cases pre)
        case Nil
        then show ?thesis using e h by simp
      next
        case (Cons x pre')
        then have "cs = pre' @ suf" using e by simp
        then show ?thesis using t Cons.IH by blast
      qed
    qed
  next
    assume a: "\<forall>pre suf. c # cs = pre @ suf \<longrightarrow> pat suf = None"
    then have "pat (c # cs) = None" by (metis append_Nil)
    moreover have "\<forall>pre suf. cs = pre @ suf \<longrightarrow> pat suf = None"
      using a by (metis append_Cons)
    ultimately show "search pat (c # cs) = None" using Cons.IH by simp
  qed
qed

lemma search_Some_iff:
  "search pat s = Some m \<longleftrightarrow>
     (\<exists>pre suf. s = pre @ suf \<and> pat suf = Some m \<and>
        (\<forall>pre' suf'. s = pre' @ suf' \<and> length pre' < length pre \<longrightarrow> pat suf' = None))"
proof (induction s)
  case Nil
  then show ?case by auto
next
  case (Cons c cs)
  show ?case
  proof (cases "pat (c # cs)")
    case (Some m')
    have "(\<exists>pre suf. c # cs = pre @ suf \<and> pat suf = Some m \<and>
        (\<forall>pre' suf'. c # cs = pre' @ suf' \<and> length pre' < length pre \<longrightarrow> pat suf' = None)) \<longleftrightarrow> m' = m"
    proof
      assume "\<exists>pre suf. c # cs = pre @ suf \<and> pat suf = Some m \<and>
        (\<forall>pre' suf'. c # cs = pre' @ suf' \<and> length pre' < length pre \<longrightarrow> pat suf' = None)"
      then obtain pre suf where e: "c # cs = pre @ suf" and p: "pat suf = Some m"
        and l: "\<forall>pre' suf'. c # cs = pre' @ suf' \<and> length pre' < length pre \<longrightarrow> pat suf' = None"
        by blast
      have "pre = []"
      proof (rule ccontr)
        assume "pre \<noteq> []"
        then have "length ([] :: jsstring) < length pre" by simp
        with l have "pat (c # cs) = None" by (metis append_Nil)
        with Some show False by simp
      qed
      then show "m' = m" using e p Some by simp
    next
      assume "m' = m"
      then have "c # cs = [] @ (c # cs) \<and> pat (c # cs) = Some m \<and>
        (\<forall>pre' suf'. c # cs = pre' @ suf' \<and> length pre' < length ([] :: jsstring) \<longrightarrow> pat suf' = None)"
        using Some by simp
      then show "\<exists>pre suf. c # cs = pre @ suf \<and> pat suf = Some m \<and>
        (\<forall>pre' suf'. c # cs = pre' @ suf' \<and> length pre' < length pre \<longrightarrow> pat suf' = None)"
        by blast
    qed
    then show ?thesis using Some by simp
  next
    case None
    have "(\<exists>pre suf. c # cs = pre @ suf \<and> pat suf = Some m \<and>
        (\<forall>pre' suf'. c # cs = pre' @ suf' \<and> length pre' < length pre \<longrightarrow> pat suf' = None)) \<longleftrightarrow>
      (\<exists>pre suf. cs = pre @ suf \<and> pat suf = Some m \<and>
        (\<forall>pre' suf'. cs = pre' @ suf' \<and> length pre' < length pre \<longrightarrow> pat suf' = None))"
      (is "?L \<longleftrightarrow> ?R")
    proof
      assume ?L
      then obtain pre suf where e: "c # cs = pre @ suf" and p: "pat suf = Some m"
        and l: "\<forall>pre' suf'. c # cs = pre' @ suf' \<and> length pre' < length pre \<longrightarrow> pat suf' = None"
        by blast
      from e p None obtain pre1 where pre: "pre = c # pre1" and e1: "cs = pre1 @ suf"
        by (cases pre) auto
      have "\<forall>pre' suf'. cs = pre' @ suf' \<and> length pre' < length pre1 \<longrightarrow> pat suf' = None"
      proof (intro allI impI)
        fix pre' suf' assume "cs = pre' @ suf' \<and> length pre' < length pre1"
        then have "c # cs = (c # pre') @ suf' \<and> length (c # pre') < length pre"
          using pre by simp
        then show "pat suf' = None" using l by blast
      qed
      then show ?R using e1 p by blast
    next
      assume ?R
      then obtain pre suf where e: "cs = pre @ suf" and p: "pat suf = Some m"
        and l: "\<forall>pre' suf'. cs = pre' @ suf' \<and> length pre' < length pre \<longrightarrow> pat suf' = None"
        by blast
      have "\<forall>pre' suf'. c # cs = pre' @ suf' \<and> length pre' < length (c # pre) \<longrightarrow> pat suf' = None"
      proof (intro allI impI)
        fix pre' suf' assume a: "c # cs = pre' @ suf' \<and> length pre' < length (c # pre)"
        show "pat suf' = None"
        proof (cases pre')
          case Nil
          then show ?thesis using a None by simp
        next
          case (Cons x pre2)
          then have "cs = pre2 @ suf' \<and> length pre2 < length pre" using a by simp
          then show ?thesis using l by blast
        qed
      qed
      moreover have "c # cs = (c # pre) @ suf" using e by simp
      ultimately show ?L using p by blast
    qed
    then show ?thesis using None Cons.IH by simp
  qed
qed

text \<open>The anchored matchers accept exactly what the patterns describe.\<close>

lemma strip_prefix_ci_iff:
  "strip_prefix_ci p s = Some r \<longleftrightarrow> (\<exists>kw. s = kw @ r \<and> map upper kw = map upper p)"
proof (induction p s rule: strip_prefix_ci.induct)
  case (1 s)
  then show ?case by simp
next
  case (2 p ps)
  then show ?case by simp
next
  case (3 p ps c cs)
  show ?case
  proof (cases "upper p = upper c")
    case True
    have "(\<exists>kw. c # cs = kw @ r \<and> map upper kw = map upper (p # ps)) \<longleftrightarrow>
          (\<exists>kw'. cs = kw' @ r \<and> map upper kw' = map upper ps)"
    proof
      assume "\<exists>kw. c # cs = kw @ r \<and> map upper kw = map upper (p # ps)"
      then obtain kw where k: "c # cs = kw @ r" "map upper kw = map upper (p # ps)" by blast
      then obtain x kw' where "kw = x # kw'" by (cases kw) auto
      with k show "\<exists>kw'. cs = kw' @ r \<and> map upper kw' = map upper ps" by auto
    next
      assume "\<exists>kw'. cs = kw' @ r \<and> map upper kw' = map upper ps"
      then obtain kw' where "cs = kw' @ r" "map upper kw' = map upper ps" by blast
      then have "c # cs = (c # kw') @ r \<and> map upper (c # kw') = map upper (p # ps)"
        using True by simp
      then show "\<exists>kw. c # cs = kw @ r \<and> map upper kw = map upper (p # ps)" by blast
    qed
    then show ?thesis using True 3 by simp
  next
    case False
    have "\<not> (\<exists>kw. c # cs = kw @ r \<and> map upper kw = map upper (p # ps))"
    proof
      assume "\<exists>kw. c # cs = kw @ r \<and> map upper kw = map upper (p # ps)"
      then obtain kw where k: "c # cs = kw @ r" "map upper kw = map upper (p # ps)" by blast
      then obtain x kw' where "kw = x # kw'" by (cases kw) auto
      with k False show False by auto
    qed
    then show ?thesis using False by simp
  qed
qed

lemma first_alternative_position_words:
  "first_alternative position_words s = Some r \<longleftrightarrow>
     (\<exists>k \<in> set position_words. strip_prefix_ci k s = Some r)"
proof (cases s)
  case Nil
  then show ?thesis by (simp add: position_words_def js_def)
next
  case (Cons c cs)
  then show ?thesis
    by (simp add: position_words_def js_def upper_def split: option.splits if_splits)
qed

lemma digits_capture_iff:
  "digits_capture t = Some ds \<longleftrightarrow>
     ds \<noteq> [] \<and> (\<forall>c \<in> set ds. isDigit c) \<and> (\<exists>rest. t = ds @ rest \<and> (rest = [] \<or> \<not> isDigit (hd rest)))"
proof
  assume "digits_capture t = Some ds"
  then have d: "ds = takeWhile isDigit t" and n: "ds \<noteq> []"
    by (auto simp: digits_capture_def Let_def split: if_splits)
  have "t = ds @ dropWhile isDigit t" using d by simp
  moreover have "dropWhile isDigit t = [] \<or> \<not> isDigit (hd (dropWhile isDigit t))"
    using hd_dropWhile [of isDigit t] by blast
  moreover have "\<forall>c \<in> set ds. isDigit c" using d by (auto dest: set_takeWhileD)
  ultimately show "ds \<noteq> [] \<and> (\<forall>c \<in> set ds. isDigit c) \<and>
      (\<exists>rest. t = ds @ rest \<and> (rest = [] \<or> \<not> isDigit (hd rest)))"
    using n by blast
next
  assume a: "ds \<noteq> [] \<and> (\<forall>c \<in> set ds. isDigit c) \<and>
      (\<exists>rest. t = ds @ rest \<and> (rest = [] \<or> \<not> isDigit (hd rest)))"
  then obtain rest where t: "t = ds @ rest" and r: "rest = [] \<or> \<not> isDigit (hd rest)" by blast
  have "takeWhile isDigit rest = []" using r by (simp add: takeWhile_eq_Nil_iff)
  then have "takeWhile isDigit t = ds" using a t by simp
  then show "digits_capture t = Some ds" using a by (simp add: digits_capture_def)
qed

lemma digit_facts:
  "isDigit c \<Longrightarrow> \<not> isWhiteSpace c" "isDigit c \<Longrightarrow> c \<noteq> of_char CHR '':''"
  "\<not> isWhiteSpace (of_char CHR '':'')"
  by (auto simp: isDigit_def isWhiteSpace_def)

lemma skip_separator:
  assumes "\<forall>c \<in> set a. isWhiteSpace c" and "col = [] \<or> col = [of_char CHR '':'']"
    and "\<forall>c \<in> set b. isWhiteSpace c" and "isDigit d"
  shows "dropWhile isWhiteSpace (optional_colon (dropWhile isWhiteSpace (a @ col @ b @ d # t))) = d # t"
proof -
  have nd: "\<not> isWhiteSpace d" "d \<noteq> of_char CHR '':''" using assms(4) digit_facts by auto
  show ?thesis
  proof (cases "col = []")
    case True
    have "dropWhile isWhiteSpace ((a @ b) @ d # t) = d # t"
      using assms(1,3) nd(1) by (simp add: dropWhile_append3)
    then show ?thesis using True nd by (simp add: optional_colon_def)
  next
    case False
    then have c: "col = [of_char CHR '':'']" using assms(2) by blast
    have "dropWhile isWhiteSpace (a @ of_char CHR '':'' # b @ d # t) = of_char CHR '':'' # b @ d # t"
      using assms(1) digit_facts(3) by (simp add: dropWhile_append3)
    moreover have "dropWhile isWhiteSpace (b @ d # t) = d # t"
      using assms(3) nd(1) by (simp add: dropWhile_append3)
    ultimately show ?thesis using c by (simp add: optional_colon_def)
  qed
qed

lemma optional_colon_decomposition:
  "\<exists>col. t = col @ optional_colon t \<and> (col = [] \<or> col = [of_char CHR '':''])"
proof (cases t)
  case Nil
  then show ?thesis by (simp add: optional_colon_def)
next
  case (Cons c cs)
  show ?thesis
  proof (cases "c = of_char CHR '':''")
    case True
    then have "t = [of_char CHR '':''] @ optional_colon t" using Cons by (simp add: optional_colon_def)
    then show ?thesis by blast
  next
    case False
    then have "t = [] @ optional_colon t" using Cons by (simp add: optional_colon_def)
    then show ?thesis by blast
  qed
qed

lemma separator_decomposition:
  "\<exists>a col b. a @ col @ b @ dropWhile isWhiteSpace (optional_colon (dropWhile isWhiteSpace r)) = r \<and>
     (\<forall>c \<in> set a. isWhiteSpace c) \<and> (col = [] \<or> col = [of_char CHR '':'']) \<and>
     (\<forall>c \<in> set b. isWhiteSpace c)"
proof -
  define r1 where "r1 = dropWhile isWhiteSpace r"
  define r2 where "r2 = optional_colon r1"
  define t where "t = dropWhile isWhiteSpace r2"
  have 1: "takeWhile isWhiteSpace r @ r1 = r" unfolding r1_def by simp
  obtain col where 2: "col @ r2 = r1" and c: "col = [] \<or> col = [of_char CHR '':'']"
    using optional_colon_decomposition [of r1] unfolding r2_def by metis
  have 3: "takeWhile isWhiteSpace r2 @ t = r2" unfolding t_def by simp
  have e: "takeWhile isWhiteSpace r @ col @ takeWhile isWhiteSpace r2 @ t = r"
    by (simp only: 3 2 1)
  have wa: "\<forall>c \<in> set (takeWhile isWhiteSpace r). isWhiteSpace c"
    by (auto dest: set_takeWhileD)
  have wb: "\<forall>c \<in> set (takeWhile isWhiteSpace r2). isWhiteSpace c"
    by (auto dest: set_takeWhileD)
  show ?thesis
    using e wa c wb unfolding t_def r2_def r1_def by blast
qed

lemma position_at_sound:
  assumes p: "position_at s = Some ds"
  shows "matches_position s ds"
proof -
  obtain r where fa: "first_alternative position_words s = Some r"
    using p by (cases "first_alternative position_words s") (simp_all add: position_at_def)
  then have dc: "digits_capture (dropWhile isWhiteSpace (optional_colon (dropWhile isWhiteSpace r))) = Some ds"
    using p by (simp add: position_at_def)
  from fa obtain k where k: "k \<in> set position_words" "strip_prefix_ci k s = Some r"
    unfolding first_alternative_position_words by (rule bexE)
  from k(2) obtain kw where kw: "s = kw @ r" "map upper kw = map upper k"
    unfolding strip_prefix_ci_iff by (elim exE conjE)
  from dc obtain rest where ds: "ds \<noteq> []" "\<forall>c \<in> set ds. isDigit c"
    "dropWhile isWhiteSpace (optional_colon (dropWhile isWhiteSpace r)) = ds @ rest"
    "rest = [] \<or> \<not> isDigit (hd rest)"
    unfolding digits_capture_iff by (elim exE conjE)
  obtain a col b where
    "a @ col @ b @ dropWhile isWhiteSpace (optional_colon (dropWhile isWhiteSpace r)) = r"
    and sep: "\<forall>c \<in> set a. isWhiteSpace c" "col = [] \<or> col = [of_char CHR '':'']"
      "\<forall>c \<in> set b. isWhiteSpace c"
    using separator_decomposition [of r] by (elim exE conjE)
  then have "a @ col @ b @ ds @ rest = r" by (simp only: ds(3))
  then have e: "s = kw @ a @ col @ b @ ds @ rest" using kw(1) by simp
  have m: "map upper kw \<in> set (map (map upper) position_words)"
    using k(1) by (simp only: kw(2) set_map) (rule imageI)
  show ?thesis
    unfolding matches_position_def
    using e m sep ds(1,2,4) by (intro exI conjI)
qed

lemma position_at_complete:
  assumes "matches_position s ds"
  shows "position_at s = Some ds"
proof -
  from assms obtain kw a col b rest where m: "s = kw @ a @ col @ b @ ds @ rest"
    "map upper kw \<in> set (map (map upper) position_words)"
    "\<forall>c \<in> set a. isWhiteSpace c" "col = [] \<or> col = [of_char CHR '':'']"
    "\<forall>c \<in> set b. isWhiteSpace c" "ds \<noteq> []" "\<forall>c \<in> set ds. isDigit c"
    "rest = [] \<or> \<not> isDigit (hd rest)"
    unfolding matches_position_def by (elim exE conjE)
  from m(2) obtain k where k: "k \<in> set position_words" "map upper kw = map upper k"
    unfolding set_map by (elim imageE) simp
  have "strip_prefix_ci k s = Some (a @ col @ b @ ds @ rest)"
    unfolding strip_prefix_ci_iff using m(1) k(2) by (intro exI conjI)
  then have fa: "first_alternative position_words s = Some (a @ col @ b @ ds @ rest)"
    unfolding first_alternative_position_words using k(1) by (rule bexI)
  obtain d ds' where d: "ds = d # ds'" using m(6) by (cases ds) simp_all
  then have "isDigit d" using m(7) by simp
  from skip_separator [OF m(3) m(4) m(5) this, of "ds' @ rest"]
  have "dropWhile isWhiteSpace (optional_colon (dropWhile isWhiteSpace (a @ col @ b @ ds @ rest)))
      = ds @ rest"
    by (simp add: d)
  moreover have "digits_capture (ds @ rest) = Some ds"
    unfolding digits_capture_iff using m(6,7,8) by (intro conjI exI) simp_all
  ultimately show ?thesis using fa by (simp add: position_at_def)
qed


lemma position_at_iff: "position_at s = Some ds \<longleftrightarrow> matches_position s ds"
  using position_at_sound position_at_complete by blast
lemma confidence_at_sound:
  assumes p: "confidence_at s = Some ds"
  shows "matches_confidence s ds"
proof -
  obtain r where sp: "strip_prefix_ci (js ''confidence'') s = Some r"
    using p by (cases "strip_prefix_ci (js ''confidence'') s") (simp_all add: confidence_at_def)
  then have dc: "digits_capture (dropWhile (\<lambda>c. c = of_char CHR '':'' \<or> isWhiteSpace c) r) = Some ds"
    using p by (simp add: confidence_at_def)
  from sp obtain kw where kw: "s = kw @ r" "map upper kw = map upper (js ''confidence'')"
    unfolding strip_prefix_ci_iff by (elim exE conjE)
  from dc obtain rest where ds: "ds \<noteq> []" "\<forall>c \<in> set ds. isDigit c"
    "dropWhile (\<lambda>c. c = of_char CHR '':'' \<or> isWhiteSpace c) r = ds @ rest"
    "rest = [] \<or> \<not> isDigit (hd rest)"
    unfolding digits_capture_iff by (elim exE conjE)
  define sep where "sep = takeWhile (\<lambda>c. c = of_char CHR '':'' \<or> isWhiteSpace c) r"
  have "sep @ dropWhile (\<lambda>c. c = of_char CHR '':'' \<or> isWhiteSpace c) r = r"
    unfolding sep_def by simp
  then have "r = sep @ ds @ rest" by (simp only: ds(3))
  then have e: "s = kw @ sep @ ds @ rest" using kw(1) by simp
  have w: "\<forall>c \<in> set sep. c = of_char CHR '':'' \<or> isWhiteSpace c"
    unfolding sep_def by (auto dest: set_takeWhileD)
  show ?thesis
    unfolding matches_confidence_def
    using e kw(2) w ds(1,2,4) by (intro exI conjI)
qed

lemma confidence_at_complete:
  assumes "matches_confidence s ds"
  shows "confidence_at s = Some ds"
proof -
  from assms obtain kw sep rest where m: "s = kw @ sep @ ds @ rest"
    "map upper kw = map upper (js ''confidence'')"
    "\<forall>c \<in> set sep. c = of_char CHR '':'' \<or> isWhiteSpace c"
    "ds \<noteq> []" "\<forall>c \<in> set ds. isDigit c" "rest = [] \<or> \<not> isDigit (hd rest)"
    unfolding matches_confidence_def by (elim exE conjE)
  have sp: "strip_prefix_ci (js ''confidence'') s = Some (sep @ ds @ rest)"
    unfolding strip_prefix_ci_iff using m(1,2) by (intro exI conjI)
  obtain d ds' where d: "ds = d # ds'" using m(4) by (cases ds) simp_all
  then have "isDigit d" using m(5) by simp
  then have "\<not> (d = of_char CHR '':'' \<or> isWhiteSpace d)" using digit_facts by blast
  then have "dropWhile (\<lambda>c. c = of_char CHR '':'' \<or> isWhiteSpace c) (sep @ d # ds' @ rest) = d # ds' @ rest"
    using m(3) by (simp add: dropWhile_append3)
  then have "dropWhile (\<lambda>c. c = of_char CHR '':'' \<or> isWhiteSpace c) (sep @ ds @ rest) = ds @ rest"
    by (simp add: d)
  moreover have "digits_capture (ds @ rest) = Some ds"
    unfolding digits_capture_iff using m(4,5,6) by (intro conjI exI) simp_all
  ultimately show ?thesis using sp by (simp add: confidence_at_def)
qed


lemma confidence_at_iff: "confidence_at s = Some ds \<longleftrightarrow> matches_confidence s ds"
  using confidence_at_sound confidence_at_complete by blast

lemma search_leftmost:
  "leftmost_match (\<lambda>suf ds. pat suf = Some ds) content (search pat content)"
proof (cases "search pat content")
  case None
  then have "\<forall>pre suf. content = pre @ suf \<longrightarrow> pat suf = None"
    by (simp add: search_None_iff)
  then show ?thesis using None by (simp add: leftmost_match_def)
next
  case (Some m)
  then obtain pre suf where e: "content = pre @ suf" "pat suf = Some m"
    and l: "\<forall>pre' suf'. content = pre' @ suf' \<and> length pre' < length pre \<longrightarrow> pat suf' = None"
    unfolding search_Some_iff by (elim exE conjE)
  have "\<forall>pre' suf' ds'. content = pre' @ suf' \<and> length pre' < length pre \<longrightarrow> pat suf' \<noteq> Some ds'"
    using l by simp
  then show ?thesis using Some e unfolding leftmost_match_def by auto
qed

lemma leftmost_match_unique:
  assumes "leftmost_match (\<lambda>suf ds. pat suf = Some ds) content m"
  shows "m = search pat content"
proof (cases m)
  case None
  then have "\<forall>pre suf. content = pre @ suf \<longrightarrow> pat suf = None"
    using assms by (simp add: leftmost_match_def)
  then have "search pat content = None" by (simp only: search_None_iff)
  then show ?thesis using None by simp
next
  case (Some ds)
  then obtain pre suf where e: "content = pre @ suf" "pat suf = Some ds"
    and l: "\<forall>pre' suf' ds'. content = pre' @ suf' \<and> length pre' < length pre \<longrightarrow> pat suf' \<noteq> Some ds'"
    using assms unfolding leftmost_match_def by auto
  have "\<forall>pre' suf'. content = pre' @ suf' \<and> length pre' < length pre \<longrightarrow> pat suf' = None"
    using l by simp
  then have "search pat content = Some ds"
    unfolding search_Some_iff using e by blast
  then show ?thesis using Some by simp
qed

lemma position_leftmost: "leftmost_match matches_position content (search position_at content)"
  using search_leftmost [of position_at content] by (simp add: position_at_iff)

lemma confidence_leftmost: "leftmost_match matches_confidence content (search confidence_at content)"
  using search_leftmost [of confidence_at content] by (simp add: confidence_at_iff)

lemma parsed_data_fallback:
  assumes "json_block content = None \<or> (\<exists>b. json_block content = Some b \<and> JSON_parse P b = None)"
  shows "parsed_data P content = Object []"
  using assms by (auto simp: parsed_data_def)

lemma parseBrandAnalysis_fallback:
  assumes "json_block content = None \<or> (\<exists>b. json_block content = Some b \<and> JSON_parse P b = None)"
  shows "parseBrandAnalysis P content k b =
           Inr \<lparr>keyword = k,
                brandMentioned = Bool (js_includes (toLowerCase P content) (toLowerCase P b)),
                position = extractPosition content,
                confidence = extractConfidence content,
                context_text = String (extractContext P content b),
                competitors = []\<rparr>"
  by (simp add: parseBrandAnalysis_def parsed_data_fallback [OF assms] opt_prop_def nullish_or_def)

lemma json_block_no_brace: "json_block (js ''position is 3'') = None"
  by (simp add: json_block_def js_def)

lemma extractPosition_not_adjacent: "extractPosition (js ''position is 3'') = Null"
  by (simp add: extractPosition_def position_at_def position_words_def js_def upper_def digits_capture_def
        optional_colon_def isWhiteSpace_def isDigit_def)

lemma extractPosition_adjacent: "extractPosition (js ''Position: 3'') = Number (Num 3)"
  by (simp add: extractPosition_def position_at_def position_words_def js_def upper_def digits_capture_def
        optional_colon_def isWhiteSpace_def isDigit_def parseInt10_def decimal_def double_of_nat_exact)

lemma extractConfidence_not_adjacent: "extractConfidence (js ''confidence level: 90'') = Number (Num 50)"
  by (simp add: extractConfidence_def confidence_at_def js_def upper_def digits_capture_def
        isWhiteSpace_def isDigit_def)

text \<open>
  C4. \<open>parseBrandAnalysis\<close> is not total: on the reply \<open>{"competitors":[null]}\<close>, which
  \<open>JSON.parse\<close> accepts, reading \<open>comp.name\<close> of the \<open>null\<close> element throws a \<open>TypeError\<close>
  outside the \<open>try\<close> block.
\<close>

theorem parse_throws_on_null_competitor:
  assumes "JSON_parse P (js ''{\"competitors\":[null]}'') =
             Some (Object [(js ''competitors'', Array [Null])])"
  shows "parseBrandAnalysis P (js ''{\"competitors\":[null]}'') k b = Inl TypeError"
proof -
  have "json_block (js ''{\"competitors\":[null]}'') = Some (js ''{\"competitors\":[null]}'')"
    by (simp add: json_block_def js_def)
  then have "parsed_data P (js ''{\"competitors\":[null]}'') = Object [(js ''competitors'', Array [Null])]"
    using assms by (simp add: parsed_data_def)
  then show ?thesis
    by (simp add: parseBrandAnalysis_def opt_prop_def competitor_of_def js_def)
qed

theorem parse_throws_on_null_competitor_witness:
  "JSON_parse sample_platform (js ''{\"competitors\":[null]}'') =
     Some (Object [(js ''competitors'', Array [Null])]) \<and>
   parseBrandAnalysis sample_platform (js ''{\"competitors\":[null]}'') (js ''k'') (js ''acme'') =
     Inl TypeError"
  using parse_throws_on_null_competitor [of sample_platform "js ''k''" "js ''acme''"]
  by (simp add: sample_platform_def)

text \<open>
  C5, as stated, fails: in \<open>position is 3\<close> the first integer that follows \<open>position\<close> is
  3, but the pattern wants the digits directly after the word (white space and one colon
  apart), so the position is \<open>null\<close>.
\<close>

theorem position_not_first_integer_counterexample:
  "json_block (js ''position is 3'') = None \<and>
   map_sum id position (parseBrandAnalysis sample_platform (js ''position is 3'') (js ''k'') (js ''acme''))
     = Inr Null \<and>
   spec_position (js ''position is 3'') = Number (Num 3)"
proof -
  have "spec_position (js ''position is 3'') = Number (Num 3)"
    by (simp add: spec_position_def position_words_def first_integer_def decimal_def isDigit_def js_def)
  then show ?thesis
    using parseBrandAnalysis_fallback [of "js ''position is 3''" sample_platform "js ''k''" "js ''acme''"]
    by (simp add: json_block_no_brace extractPosition_not_adjacent)
qed

text \<open>
  C5, amended. When the content has no block from a \<open>{\<close> to a later \<open>}\<close>, or
  \<open>JSON.parse\<close> rejects the block, \<open>parseBrandAnalysis\<close> returns: \<open>brandMentioned\<close>, whether
  the lower-cased brand name occurs in the lower-cased content; \<open>position\<close>, the number
  value of the integer written by the digits of the leftmost match of a case-insensitive
  \<open>position\<close>, \<open>rank\<close>, \<open>#\<close> or \<open>number\<close> followed by optional white space, an optional
  colon, optional white space and at least one digit, or \<open>null\<close> without a match;
  \<open>confidence\<close>, the number value of the integer written by the digits of the leftmost
  match of a case-insensitive \<open>confidence\<close> followed by any run of colons and white space
  and at least one digit, or 50 without a match; and no competitors. The number value of
  an integer \<open>n\<close> is \<open>n\<close> itself up to \<open>2 ^ 53\<close>, \<open>Infinity\<close> from \<open>2 ^ 1024 - 2 ^ 970\<close> on,
  and between them a multiple of \<open>2 ^ e\<close> at most \<open>2 ^ e / 2\<close> away from \<open>n\<close>, where
  \<open>2 ^ (52 + e) \<le> n < 2 ^ (53 + e)\<close>.
\<close>

theorem fallback_analysis:
  assumes "json_block content = None \<or> (\<exists>b. json_block content = Some b \<and> JSON_parse P b = None)"
  shows "leftmost_match matches_position content (search position_at content) \<and>
         leftmost_match matches_confidence content (search confidence_at content) \<and>
         parseBrandAnalysis P content k b =
           Inr \<lparr>keyword = k,
                brandMentioned = Bool (js_includes (toLowerCase P content) (toLowerCase P b)),
                position =
                  (case search position_at content of
                     Some ds \<Rightarrow>
                       Number (double_of_nat
                         (\<Sum>i<length ds. (ds ! i - 48) * 10 ^ (length ds - Suc i)))
                   | None \<Rightarrow> Null),
                confidence =
                  (case search confidence_at content of
                     Some ds \<Rightarrow>
                       Number (double_of_nat
                         (\<Sum>i<length ds. (ds ! i - 48) * 10 ^ (length ds - Suc i)))
                   | None \<Rightarrow> Number (Num 50)),
                context_text = String (extractContext P content b),
                competitors = []\<rparr> \<and>
         (\<forall>n. n \<le> 2 ^ 53 \<longrightarrow> double_of_nat n = Num (of_nat n)) \<and>
         (\<forall>n. double_of_nat n = PosInfinity \<longleftrightarrow> 2 ^ 1024 - 2 ^ 970 \<le> n) \<and>
         (\<forall>n v. double_of_nat n = Num v \<longrightarrow>
            (\<exists>m. v = of_nat (m * 2 ^ excess_bits n) \<and>
                 2 * \<bar>int (m * 2 ^ excess_bits n) - int n\<bar> \<le> 2 ^ excess_bits n)) \<and>
         (\<forall>n. 2 ^ 53 \<le> n \<longrightarrow> 2 ^ (52 + excess_bits n) \<le> n \<and> n < 2 ^ (53 + excess_bits n))"
proof -
  have "parseBrandAnalysis P content k b =
           Inr \<lparr>keyword = k,
                brandMentioned = Bool (js_includes (toLowerCase P content) (toLowerCase P b)),
                position =
                  (case search position_at content of
                     Some ds \<Rightarrow>
                       Number (double_of_nat
                         (\<Sum>i<length ds. (ds ! i - 48) * 10 ^ (length ds - Suc i)))
                   | None \<Rightarrow> Null),
                confidence =
                  (case search confidence_at content of
                     Some ds \<Rightarrow>
                       Number (double_of_nat
                         (\<Sum>i<length ds. (ds ! i - 48) * 10 ^ (length ds - Suc i)))
                   | None \<Rightarrow> Number (Num 50)),
                context_text = String (extractContext P content b),
                competitors = []\<rparr>"
    unfolding decimal_sum [symmetric] parseBrandAnalysis_fallback [OF assms]
    by (simp add: extractPosition_def extractConfidence_def parseInt10_def split: option.split)
  moreover have "\<forall>n. n \<le> 2 ^ 53 \<longrightarrow> double_of_nat n = Num (of_nat n)"
    by (simp add: double_of_nat_exact)
  moreover have "\<forall>n. double_of_nat n = PosInfinity \<longleftrightarrow> 2 ^ 1024 - 2 ^ 970 \<le> n"
    by (simp only: double_of_nat_Infinity_iff) simp
  moreover have "\<forall>n v. double_of_nat n = Num v \<longrightarrow>
            (\<exists>m. v = of_nat (m * 2 ^ excess_bits n) \<and>
                 2 * \<bar>int (m * 2 ^ excess_bits n) - int n\<bar> \<le> 2 ^ excess_bits n)"
    using double_of_nat_nearest by blast
  moreover have "\<forall>n. 2 ^ 53 \<le> n \<longrightarrow> 2 ^ (52 + excess_bits n) \<le> n \<and> n < 2 ^ (53 + excess_bits n)"
    using excess_bits_bounds by blast
  ultimately show ?thesis
    using position_leftmost confidence_leftmost by blast
qed

text \<open>
  On \<open>Rank: 9007199254740993, confidence: 87\<close> the position is 9007199254740992, the
  double nearest to the integer written, and the confidence is 87.
\<close>

theorem fallback_analysis_witness:
  "json_block (js ''Rank: 9007199254740993, confidence: 87'') = None \<and>
   map_sum id position (parseBrandAnalysis sample_platform
       (js ''Rank: 9007199254740993, confidence: 87'') (js ''k'') (js ''acme''))
     = Inr (Number (Num 9007199254740992)) \<and>
   map_sum id confidence (parseBrandAnalysis sample_platform
       (js ''Rank: 9007199254740993, confidence: 87'') (js ''k'') (js ''acme''))
     = Inr (Number (Num 87)) \<and>
   map_sum id brandMentioned (parseBrandAnalysis sample_platform
       (js ''Rank: 9007199254740993, confidence: 87'') (js ''k'') (js ''acme''))
     = Inr (Bool False) \<and>
   map_sum id competitors (parseBrandAnalysis sample_platform
       (js ''Rank: 9007199254740993, confidence: 87'') (js ''k'') (js ''acme''))
     = Inr [] \<and>
   double_of_nat 9007199254740995 = Num 9007199254740996 \<and>
   double_of_nat (2 ^ 1024 - 2 ^ 970) = PosInfinity"
proof -
  have nb: "json_block (js ''Rank: 9007199254740993, confidence: 87'') = None"
    by (simp add: json_block_def js_def)
  have p: "search position_at (js ''Rank: 9007199254740993, confidence: 87'') =
             Some (js ''9007199254740993'')"
    by (simp add: position_at_def position_words_def js_def upper_def digits_capture_def
          optional_colon_def isWhiteSpace_def isDigit_def)
  have c: "search confidence_at (js ''Rank: 9007199254740993, confidence: 87'') = Some (js ''87'')"
    by (simp add: confidence_at_def js_def upper_def digits_capture_def isWhiteSpace_def isDigit_def)
  have d1: "decimal (js ''9007199254740993'') = 9007199254740993"
    by (simp add: decimal_def js_def)
  have d2: "decimal (js ''87'') = 87"
    by (simp add: decimal_def js_def)
  have m: "js_includes (toLowerCase sample_platform (js ''Rank: 9007199254740993, confidence: 87''))
             (toLowerCase sample_platform (js ''acme'')) = False"
    by (simp add: js_includes_def sample_platform_def js_def)
  note T = fallback_analysis [of "js ''Rank: 9007199254740993, confidence: 87''" sample_platform
      "js ''k''" "js ''acme''", unfolded decimal_sum [symmetric]]
  have i: "double_of_nat (2 ^ 1024 - 2 ^ 970) = PosInfinity"
    using T nb by simp
  show ?thesis
    using T nb
    by (simp add: p c d1 d2 m i double_of_nat_rounds double_of_nat_rounds_up double_of_nat_exact
          del: One_nat_def)
qed

subsection \<open>Report generation\<close>

lemma parseBrandAnalysis_keyword:
  "parseBrandAnalysis P content k b = Inr r \<Longrightarrow> keyword r = k"
  by (auto simp: parseBrandAnalysis_def Let_def split: sum.splits)

lemma analyzeBrandMention_keyword:
  "analyzeBrandMention P reply k b = Inr r \<Longrightarrow> keyword r = k"
  by (auto simp: analyzeBrandMention_def split: api_reply.splits sum.splits
           dest: parseBrandAnalysis_keyword)

lemma analyze_keywords_trace:
  "filter is_Analyze (events (analyze_keywords P env st rid i ks rs)) =
     map (\<lambda>k. Analyze (item_keyword k) (brandName st) (competitor_names st) (openaiApiKey st)) ks \<and>
   results (analyze_keywords P env st rid i ks rs) = rs @ successes P env st i ks \<and>
   filter is_Insert_api_response (events (analyze_keywords P env st rid i ks rs)) =
     map (\<lambda>r. Insert_api_response (api_response_of rid (keyword r) r)) (successes P env st i ks) \<and>
   stored_rows (analyze_keywords P env st rid i ks rs) =
     map (\<lambda>r. api_response_of rid (keyword r) r) (stored_successes P env st i ks)"
proof (induction ks arbitrary: i rs)
  case Nil
  then show ?case by simp
next
  case (Cons k ks)
  show ?case
  proof (cases "analyzeBrandMention P (reply_of env i) (item_keyword k) (brandName st)")
    case (Inl e)
    then show ?thesis using Cons.IH [of "Suc i" rs]
      by (simp add: Let_def)
  next
    case (Inr result)
    then have "keyword result = item_keyword k" by (rule analyzeBrandMention_keyword)
    then show ?thesis using Inr Cons.IH [of "Suc i" "rs @ [result]"]
      by (simp add: Let_def)
  qed
qed

lemma stored_successes_all_ok:
  "\<forall>j. store_of env j = Insert_ok \<Longrightarrow> stored_successes P env st i ks = successes P env st i ks"
  by (induction ks arbitrary: i) (simp_all split: sum.splits)

lemma successes_keywords:
  "r \<in> set (successes P env st i ks) \<Longrightarrow> keyword r \<in> item_keyword ` set ks"
  by (induction ks arbitrary: i)
     (auto split: sum.splits dest: analyzeBrandMention_keyword)

lemma successes_enumerate:
  "successes P env st i ks =
     concat (map (\<lambda>(j, k).
                case analyzeBrandMention P (reply_of env j) (item_keyword k) (brandName st) of
                  Inl e \<Rightarrow> [] | Inr result \<Rightarrow> [result])
            (enumerate i ks))"
  by (induction ks arbitrary: i) (simp_all split: sum.splits)

lemma successes_length: "length (successes P env st i ks) \<le> length ks"
  by (induction ks arbitrary: i) (auto split: sum.splits simp: le_SucI)

lemma trim_sk: "trim (js ''sk'') = js ''sk''"
  by (simp add: trim_def js_def isWhiteSpace_def)

lemma example_first_reply:
  "analyzeBrandMention sample_platform (Api_content (js ''Acme rank 2'')) (js ''a'') (js ''acme'') =
     Inr \<lparr>keyword = js ''a'', brandMentioned = Bool True, position = Number (Num 2),
          confidence = Number (Num 50), context_text = String (js ''Acme rank 2''),
          competitors = [], rawResponse = js ''Acme rank 2''\<rparr>"
proof -
  have nb: "json_block (js ''Acme rank 2'') = None" by (simp add: json_block_def js_def)
  have p: "extractPosition (js ''Acme rank 2'') = Number (Num 2)"
    by (simp add: extractPosition_def position_at_def position_words_def js_def upper_def
        digits_capture_def optional_colon_def isWhiteSpace_def isDigit_def parseInt10_def decimal_def
        double_of_nat_exact)
  have c: "extractConfidence (js ''Acme rank 2'') = Number (Num 50)"
    by (simp add: extractConfidence_def confidence_at_def js_def upper_def)
  have i: "js_includes (toLowerCase sample_platform (js ''Acme rank 2'')) (toLowerCase sample_platform (js ''acme''))"
    by (simp add: js_includes_def sample_platform_def js_def)
  have x: "extractContext sample_platform (js ''Acme rank 2'') (js ''acme'') = js ''Acme rank 2''"
    by (simp add: extractContext_def sample_platform_def js_def substring_def trim_def isWhiteSpace_def)
  show ?thesis
    using parseBrandAnalysis_fallback [of "js ''Acme rank 2''" sample_platform "js ''a''" "js ''acme''"]
    by (simp add: analyzeBrandMention_def nb p c i x)
qed

lemma example_enabled: "\<not> generate_disabled example_state"
  by (simp add: generate_disabled_def example_state_def trim_sk) (simp add: js_def)

lemma example_successes:
  "successes sample_platform env example_state 0 (keyword_items example_state) =
     (case analyzeBrandMention sample_platform (reply_of env 0) (js ''a'') (js ''acme'') of
        Inl e \<Rightarrow> [] | Inr r \<Rightarrow> [r]) @
     (case analyzeBrandMention sample_platform (reply_of env 1) (js ''b'') (js ''acme'') of
        Inl e \<Rightarrow> [] | Inr r \<Rightarrow> [r])"
  by (simp add: example_state_def split: sum.splits)

text \<open>
  C3, as stated, fails. With a project, two keywords and an API key, when the insert of
  the report record returns an error, \<open>handleGenerateReport\<close> throws before the loop and
  calls the analysis for no keyword. And when the report is created but the inserts into
  \<open>api_responses\<close> return an error, the successful call appends its result and no row is
  stored.
\<close>

theorem report_insert_error_counterexample:
  "project example_state \<noteq> None \<and> keyword_items example_state \<noteq> [] \<and>
   \<not> generate_disabled example_state \<and>
   filter is_Analyze (events (handleGenerateReport sample_platform failing_environment example_state)) = [] \<and>
   length (results (handleGenerateReport sample_platform rejecting_environment example_state)) = 1 \<and>
   stored_rows (handleGenerateReport sample_platform rejecting_environment example_state) = []"
proof -
  have k: "trim (openaiApiKey example_state) \<noteq> []" "keyword_items example_state \<noteq> []"
    using example_enabled by (simp_all add: generate_disabled_def)
  have p: "project example_state \<noteq> None" by (simp add: example_state_def)
  have f: "filter is_Analyze
      (events (handleGenerateReport sample_platform failing_environment example_state)) = []"
    using k p by (auto simp: handleGenerateReport_def failing_environment_def example_environment_def)
  have r: "create_report rejecting_environment = Report_created 9"
    "store_of rejecting_environment = (\<lambda>i. Insert_rejected)"
    "reply_of rejecting_environment 0 = Api_content (js ''Acme rank 2'')"
    "reply_of rejecting_environment (Suc 0) = Api_failure"
    by (simp_all add: rejecting_environment_def example_environment_def)
  have vals: "keyword_items example_state =
      [\<lparr>item_id = 1, item_keyword = js ''a''\<rparr>, \<lparr>item_id = 2, item_keyword = js ''b''\<rparr>]"
    "brandName example_state = js ''acme''"
    by (simp_all add: example_state_def)
  have "results (handleGenerateReport sample_platform rejecting_environment example_state) =
          successes sample_platform rejecting_environment example_state 0 (keyword_items example_state) \<and>
        stored_rows (handleGenerateReport sample_platform rejecting_environment example_state) =
          map (\<lambda>r. api_response_of 9 (keyword r) r)
            (stored_successes sample_platform rejecting_environment example_state 0
               (keyword_items example_state))"
    using k p r(1)
      analyze_keywords_trace [of sample_platform rejecting_environment example_state 9 0
        "keyword_items example_state" "[]"]
    by (auto simp: handleGenerateReport_def Let_def)
  then have "length (results (handleGenerateReport sample_platform rejecting_environment example_state)) = 1 \<and>
      stored_rows (handleGenerateReport sample_platform rejecting_environment example_state) = []"
    using example_first_reply by (simp add: vals r analyzeBrandMention_def)
  then show ?thesis using p k example_enabled f by simp
qed

text \<open>
  C3, amended. For a project with a non-empty keyword list, when the run is started from
  the page (the button is enabled, so the API key is not blank) and the insert of the
  report record succeeds: \<open>handleGenerateReport\<close> calls \<open>analyzeBrandMention\<close> exactly once
  per keyword, in the order of the list; its results are the results of the successful
  calls, one each, in that order; for each of them it issues one insert of an
  \<open>api_responses\<close> row with the report's id and the keyword of the result; the rows
  stored are those of the successful calls whose insert succeeds, so when the inserts
  succeed, one row is stored for the keyword of each successful call.
\<close>

theorem report_generation_calls:
  assumes "project st = Some p" and "\<not> generate_disabled st"
    and "create_report env = Report_created rid"
  shows "filter is_Analyze (events (handleGenerateReport P env st)) =
           map (\<lambda>k. Analyze (item_keyword k) (brandName st) (competitor_names st) (openaiApiKey st))
             (keyword_items st) \<and>
         results (handleGenerateReport P env st) = successes P env st 0 (keyword_items st) \<and>
         filter is_Insert_api_response (events (handleGenerateReport P env st)) =
           map (\<lambda>r. Insert_api_response (api_response_of rid (keyword r) r))
             (results (handleGenerateReport P env st)) \<and>
         stored_rows (handleGenerateReport P env st) =
           map (\<lambda>r. api_response_of rid (keyword r) r)
             (stored_successes P env st 0 (keyword_items st)) \<and>
         ((\<forall>j. store_of env j = Insert_ok) \<longrightarrow>
            stored_rows (handleGenerateReport P env st) =
              map (\<lambda>r. api_response_of rid (keyword r) r) (results (handleGenerateReport P env st)))"
proof -
  have k: "keyword_items st \<noteq> []" "trim (openaiApiKey st) \<noteq> []"
    using assms(2) by (simp_all add: generate_disabled_def)
  show ?thesis
    using assms(1,3) k analyze_keywords_trace [of P env st rid 0 "keyword_items st" "[]"]
      stored_successes_all_ok [of env P st 0 "keyword_items st"]
    by (auto simp: handleGenerateReport_def Let_def)
qed

theorem report_generation_calls_witness:
  "project example_state \<noteq> None \<and> \<not> generate_disabled example_state \<and>
   create_report example_environment = Report_created 9 \<and>
   (\<forall>j. store_of example_environment j = Insert_ok) \<and>
   filter is_Analyze (events (handleGenerateReport sample_platform example_environment example_state)) =
     [Analyze (js ''a'') (js ''acme'') [] (js ''sk''), Analyze (js ''b'') (js ''acme'') [] (js ''sk'')] \<and>
   map keyword (results (handleGenerateReport sample_platform example_environment example_state)) = [js ''a''] \<and>
   map ins_keyword (stored_rows (handleGenerateReport sample_platform example_environment example_state))
     = [js ''a''] \<and>
   map ins_report_id (stored_rows (handleGenerateReport sample_platform example_environment example_state))
     = [9]"
proof -
  have h1: "project example_state = Some \<lparr>project_id = 10, project_user_id = 1, project_name = ''p'',
                       brand_name = ''acme'', project_competitors = []\<rparr>"
    by (simp add: example_state_def)
  have h3: "create_report example_environment = Report_created 9"
    and h4: "\<forall>j. store_of example_environment j = Insert_ok"
    and r: "reply_of example_environment 0 = Api_content (js ''Acme rank 2'')"
      "reply_of example_environment (Suc 0) = Api_failure"
    by (simp_all add: example_environment_def)
  have vals: "keyword_items example_state =
      [\<lparr>item_id = 1, item_keyword = js ''a''\<rparr>, \<lparr>item_id = 2, item_keyword = js ''b''\<rparr>]"
     "brandName example_state = js ''acme''" "competitor_names example_state = []"
     "openaiApiKey example_state = js ''sk''"
    by (simp_all add: example_state_def)
  have s: "successes sample_platform example_environment example_state 0 (keyword_items example_state) =
     [\<lparr>keyword = js ''a'', brandMentioned = Bool True, position = Number (Num 2),
          confidence = Number (Num 50), context_text = String (js ''Acme rank 2''),
          competitors = [], rawResponse = js ''Acme rank 2''\<rparr>]"
    using example_first_reply by (simp add: vals r analyzeBrandMention_def)
  note T = report_generation_calls [OF h1 example_enabled h3, of sample_platform]
  from T have a: "filter is_Analyze
      (events (handleGenerateReport sample_platform example_environment example_state)) =
      map (\<lambda>k. Analyze (item_keyword k) (brandName example_state) (competitor_names example_state)
                 (openaiApiKey example_state)) (keyword_items example_state)"
    by (rule conjunct1)
  from T have b: "results (handleGenerateReport sample_platform example_environment example_state) =
      successes sample_platform example_environment example_state 0 (keyword_items example_state)"
    by blast
  from T h4 have c: "stored_rows (handleGenerateReport sample_platform example_environment example_state) =
      map (\<lambda>r. api_response_of 9 (keyword r) r)
        (results (handleGenerateReport sample_platform example_environment example_state))"
    by blast
  show ?thesis
    using h1 h3 h4 example_enabled
    by (simp add: a c b s api_response_of_def) (simp add: vals)
qed

subsection \<open>Historical data\<close>





lemma days_literal:
  "days (case timeRange_arg of None \<Rightarrow> Range_30d | Some r \<Rightarrow> r) =
     (case timeRange_arg of
        None \<Rightarrow> 30
      | Some Range_7d \<Rightarrow> 7 | Some Range_30d \<Rightarrow> 30 | Some Range_90d \<Rightarrow> 90 | Some Range_1y \<Rightarrow> 365)"
  by (simp split: option.split timeRange.split)








end
